theory Spec2Isabelle
  imports Main
begin

section \<open>The feed-forward network core (methods/ann/ffn\_impl.hpp)\<close>

text \<open>
  The class \<open>FFN\<close> drives a layer graph, an output layer and a weight initializer that
  live in other files. Its member functions are embedded below as functions on an
  explicit record of the object's members. A member function that can throw returns a
  pair: the outcome (\<open>Inl\<close> the exception, \<open>Inr\<close> the value) and the object as the call
  leaves it, since a C++ object keeps every assignment made before a \<open>throw\<close>.

  Values of type \<open>size_t\<close> are natural numbers; where the C++ arithmetic can wrap
  (a subtraction, a product, an addition of caller-supplied numbers) the model reduces
  modulo \<open>2 ^ 64\<close> explicitly.
\<close>

subsection \<open>Exceptions\<close>

datatype exn =
  invalid_argument string
| logic_error string
| runtime_error string

definition SIZE_T :: nat where
  "SIZE_T = 2 ^ 64"

subsection \<open>Dense matrices (the linear-algebra substrate)\<close>

text \<open>
  A matrix is its shape and its elements in column-major order, one example per
  column. \<open>strict\<close> marks a matrix built on borrowed memory whose number of elements is
  fixed (the constructor call with \<open>copy_aux_mem = false, strict = true\<close>).
  The element type \<open>'v\<close> stays abstract: nothing below depends on the arithmetic of
  floating-point numbers beyond the operations \<open>0\<close> and \<open>+\<close> themselves.
\<close>

record 'v mat =
  n_rows :: nat
  n_cols :: nat
  mem :: "'v list"
  strict :: bool

definition n_elem :: "'v mat \<Rightarrow> nat" where
  "n_elem m = n_rows m * n_cols m"

definition is_empty :: "'v mat \<Rightarrow> bool" where
  "is_empty m = (n_elem m = 0)"

definition clear :: "'v mat \<Rightarrow> 'v mat" where
  "clear m = m\<lparr>n_rows := 0, n_cols := 0, mem := []\<rparr>"

text \<open>
  \<open>set_size\<close> keeps the memory when the number of elements does not change and
  otherwise leaves the elements unspecified; the model fills them with the value
  \<open>fill\<close>, which every function that allocates takes from its environment (\<open>junk\<close>).
\<close>

definition set_size :: "'v \<Rightarrow> nat \<Rightarrow> nat \<Rightarrow> 'v mat \<Rightarrow> 'v mat" where
  "set_size fill r c m =
     (if n_elem m = r * c then m\<lparr>n_rows := r, n_cols := c\<rparr>
      else m\<lparr>n_rows := r, n_cols := c, mem := replicate (r * c) fill\<rparr>)"

text \<open>The constructor \<open>Mat(rows, cols)\<close>: a fresh matrix with unspecified elements.\<close>

definition new_mat :: "'v \<Rightarrow> nat \<Rightarrow> nat \<Rightarrow> 'v mat" where
  "new_mat fill r c = \<lparr>n_rows = r, n_cols = c, mem = replicate (r * c) fill, strict = False\<rparr>"

text \<open>
  \<open>m.cols(in_col1, in_col2)\<close>: the columns \<open>in_col1 .. in_col2\<close> inclusive. The library
  checks the range and throws when \<open>in_col1 > in_col2\<close> or \<open>in_col2 \<ge> n_cols\<close>.
\<close>

definition cols :: "nat \<Rightarrow> nat \<Rightarrow> 'v mat \<Rightarrow> exn + 'v mat" where
  "cols in_col1 in_col2 m =
     (if in_col1 > in_col2 \<or> in_col2 \<ge> n_cols m
      then Inl (logic_error ''Mat::cols(): indices out of bounds or incorrectly used'')
      else Inr \<lparr>n_rows = n_rows m, n_cols = in_col2 - in_col1 + 1,
                mem = take ((in_col2 - in_col1 + 1) * n_rows m) (drop (in_col1 * n_rows m) (mem m)),
                strict = False\<rparr>)"

text \<open>
  \<open>Mat(m.colptr(i), rows, k, false, true)\<close>: a strict view of \<open>k\<close> columns of \<open>rows\<close>
  elements starting at column \<open>i\<close> of \<open>m\<close>. No range check is made.
\<close>

definition col_view :: "'v mat \<Rightarrow> nat \<Rightarrow> nat \<Rightarrow> nat \<Rightarrow> 'v mat" where
  "col_view m i rows k =
     \<lparr>n_rows = rows, n_cols = k,
      mem = take (rows * k) (drop (i * n_rows m) (mem m)), strict = True\<rparr>"

text \<open>What the memory of \<open>m\<close> holds once the view at column \<open>i\<close> has been written.\<close>

definition write_view :: "'v mat \<Rightarrow> nat \<Rightarrow> 'v mat \<Rightarrow> 'v mat" where
  "write_view m i v =
     m\<lparr>mem := take (i * n_rows m) (mem m) @ mem v @
               drop (i * n_rows m + length (mem v)) (mem m)\<rparr>"

text \<open>
  \<open>dst = src\<close>: the destination takes the shape and the elements of the source; a
  strict destination refuses a source with another number of elements.
\<close>

definition mat_assign :: "'v mat \<Rightarrow> 'v mat \<Rightarrow> exn + 'v mat" where
  "mat_assign dst src =
     (if strict dst \<and> n_elem dst \<noteq> n_elem src
      then Inl (logic_error ''Mat::init(): mismatch between size of auxiliary memory and requested size'')
      else Inr (dst\<lparr>n_rows := n_rows src, n_cols := n_cols src, mem := mem src\<rparr>))"

text \<open>\<open>a += b\<close>: element-wise, and an exception when the shapes differ.\<close>

definition mat_add_assign :: "'v::plus mat \<Rightarrow> 'v mat \<Rightarrow> exn + 'v mat" where
  "mat_add_assign a b =
     (if n_rows a \<noteq> n_rows b \<or> n_cols a \<noteq> n_cols b
      then Inl (logic_error ''addition: incompatible matrix dimensions'')
      else Inr (a\<lparr>mem := map2 (+) (mem a) (mem b)\<rparr>))"

subsection \<open>The collaborators\<close>

text \<open>
  The layer graph (\<open>network\<close>, of type \<open>'n\<close>), the output layer (\<open>'o\<close>) and the
  initialization rule (\<open>'r\<close>) are defined outside this file. The core reaches them only
  through the operations below, which the model takes as a parameter \<open>E\<close>: a theorem
  that puts no condition on \<open>E\<close> holds for every layer graph.
  Operations that write through a reference argument return the written matrix;
  operations on the graph that are not \<open>const\<close> return the graph as well.
  The weight views of the layers belong to the graph: \<open>net_SetWeights\<close> receives the
  buffer the views are pointed at.
  The last three fields are the default arguments of \<open>CheckNetwork\<close> and
  \<open>UpdateDimensions\<close>: they are given in the class declaration, which is not part of
  this file, so the model takes them as parameters too.
\<close>

record ('n, 'o, 'r, 'v) collaborators =
  net_size :: "'n \<Rightarrow> nat"
  net_WeightSize :: "'n \<Rightarrow> nat"
  net_OutputSize :: "'n \<Rightarrow> nat"
  net_Loss :: "'n \<Rightarrow> 'v"
  net_InputDimensions :: "'n \<Rightarrow> nat list"
  net_InputDimensions_upd :: "nat list \<Rightarrow> 'n \<Rightarrow> 'n"
  net_Training_upd :: "bool \<Rightarrow> 'n \<Rightarrow> 'n"
  net_ComputeOutputDimensions :: "'n \<Rightarrow> 'n"
  net_SetWeights :: "'v mat \<Rightarrow> 'n \<Rightarrow> 'n"
  net_Forward :: "'v mat \<Rightarrow> 'v mat \<Rightarrow> 'n \<Rightarrow> 'v mat \<times> 'n"
  net_ForwardRange :: "'v mat \<Rightarrow> 'v mat \<Rightarrow> nat \<Rightarrow> nat \<Rightarrow> 'n \<Rightarrow> 'v mat \<times> 'n"
  net_Backward :: "'v mat \<Rightarrow> 'v mat \<Rightarrow> 'v mat \<Rightarrow> 'n \<Rightarrow> 'v mat \<times> 'n"
  net_Gradient :: "'v mat \<Rightarrow> 'v mat \<Rightarrow> 'v mat \<Rightarrow> 'n \<Rightarrow> 'v mat \<times> 'n"
  out_Forward :: "'o \<Rightarrow> 'v mat \<Rightarrow> 'v mat \<Rightarrow> 'v"
  out_Backward :: "'o \<Rightarrow> 'v mat \<Rightarrow> 'v mat \<Rightarrow> 'v mat \<Rightarrow> 'v mat"
  init_Initialize :: "'r \<Rightarrow> 'n \<Rightarrow> 'v mat \<Rightarrow> 'n \<times> 'v mat"
  junk :: 'v
  dflt_setMode :: bool
  dflt_training :: bool
  dflt_inputDimensionality :: nat

subsection \<open>The members of the class\<close>

record ('n, 'o, 'r, 'v) FFN =
  outputLayer :: 'o
  initializeRule :: 'r
  network :: 'n
  parameters :: "'v mat"
  inputDimensions :: "nat list"
  predictors :: "'v mat"
  responses :: "'v mat"
  networkOutput :: "'v mat"
  networkDelta :: "'v mat"
  error :: "'v mat"
  training :: bool
  layerMemoryIsSet :: bool
  inputDimensionsAreSet :: bool

subsection \<open>Mode, data and weights\<close>

definition SetNetworkMode ::
  "('n, 'o, 'r, 'v) collaborators \<Rightarrow> bool \<Rightarrow> ('n, 'o, 'r, 'v) FFN \<Rightarrow> ('n, 'o, 'r, 'v) FFN" where
  "SetNetworkMode E trainingValue s =
     s\<lparr>training := trainingValue, network := net_Training_upd E trainingValue (network s)\<rparr>"

definition ResetData ::
  "('n, 'o, 'r, 'v) collaborators \<Rightarrow> 'v mat \<Rightarrow> 'v mat \<Rightarrow> ('n, 'o, 'r, 'v) FFN \<Rightarrow> ('n, 'o, 'r, 'v) FFN" where
  "ResetData E predictorsArg responsesArg s =
     SetNetworkMode E True (s\<lparr>predictors := predictorsArg, responses := responsesArg\<rparr>)"

definition InitializeWeights ::
  "('n, 'o, 'r, 'v) collaborators \<Rightarrow> ('n, 'o, 'r, 'v) FFN \<Rightarrow> ('n, 'o, 'r, 'v) FFN" where
  "InitializeWeights E s =
     (let s1 = SetNetworkMode E False s;
          (n, p) = init_Initialize E (initializeRule s1) (network s1) (parameters s1)
      in s1\<lparr>network := n, parameters := p\<rparr>)"

text \<open>
  Modelled from the spec: \<open>Log::Assert\<close> is not part of this file; the spec calls the
  check of \<open>SetLayerMemory\<close> a fatal assertion that must abort, so a failed check is
  the exception \<open>runtime_error\<close>.
\<close>

definition SetLayerMemory ::
  "('n, 'o, 'r, 'v) collaborators \<Rightarrow> ('n, 'o, 'r, 'v) FFN \<Rightarrow> (exn + unit) \<times> ('n, 'o, 'r, 'v) FFN" where
  "SetLayerMemory E s =
     (let totalWeightSize = net_WeightSize E (network s)
      in if totalWeightSize \<noteq> n_elem (parameters s)
         then (Inl (runtime_error ''FFN::SetLayerMemory(): total layer weight size does not match parameter size!''), s)
         else (Inr (), s\<lparr>network := net_SetWeights E (parameters s) (network s),
                         layerMemoryIsSet := True\<rparr>))"

subsection \<open>Dimension propagation and the gatekeeper\<close>

text \<open>The loop \<open>totalInputSize *= inputDimensions[i]\<close>, in \<open>size_t\<close> arithmetic.\<close>

definition totalInputSize :: "nat list \<Rightarrow> nat" where
  "totalInputSize dims = foldl (\<lambda>t d. (t * d) mod SIZE_T) 1 dims"

definition UpdateDimensions ::
  "('n, 'o, 'r, 'v) collaborators \<Rightarrow> string \<Rightarrow> nat \<Rightarrow> ('n, 'o, 'r, 'v) FFN
     \<Rightarrow> (exn + unit) \<times> ('n, 'o, 'r, 'v) FFN" where
  "UpdateDimensions E functionName inputDimensionality s =
     (let s1 = (if length (inputDimensions s) = 0
                then s\<lparr>inputDimensions := [inputDimensionality]\<rparr> else s)
      in if totalInputSize (inputDimensions s1) \<noteq> inputDimensionality \<and> inputDimensionality \<noteq> 0
         then (Inl (logic_error (functionName @
                 '': input size does not match expected size set with InputDimensions()!'')), s1)
         else if inputDimensions s1 = net_InputDimensions E (network s1)
         then (Inr (), s1\<lparr>inputDimensionsAreSet := True\<rparr>)
         else (Inr (), s1\<lparr>network := net_ComputeOutputDimensions E
                               (net_InputDimensions_upd E (inputDimensions s1) (network s1)),
                           inputDimensionsAreSet := True\<rparr>))"

definition CheckNetwork ::
  "('n, 'o, 'r, 'v) collaborators \<Rightarrow> string \<Rightarrow> nat \<Rightarrow> bool \<Rightarrow> bool \<Rightarrow> ('n, 'o, 'r, 'v) FFN
     \<Rightarrow> (exn + unit) \<times> ('n, 'o, 'r, 'v) FFN" where
  "CheckNetwork E functionName inputDimensionality setMode trainingValue s =
     (if net_size E (network s) = 0
      then (Inl (invalid_argument (functionName @ '': cannot use network with no layers!'')), s)
      else
        case (if \<not> inputDimensionsAreSet s
              then UpdateDimensions E functionName inputDimensionality s
              else (Inr (), s)) of
          (Inl e, s1) \<Rightarrow> (Inl e, s1)
        | (Inr _, s1) \<Rightarrow>
            (let s2 = (if is_empty (parameters s1) then InitializeWeights E s1
                       else if n_elem (parameters s1) \<noteq> net_WeightSize E (network s1)
                       then InitializeWeights E (s1\<lparr>parameters := clear (parameters s1)\<rparr>)
                       else s1)
             in case (if \<not> layerMemoryIsSet s2 then SetLayerMemory E s2 else (Inr (), s2)) of
                  (Inl e, s3) \<Rightarrow> (Inl e, s3)
                | (Inr _, s3) \<Rightarrow>
                    (Inr (), if setMode then SetNetworkMode E trainingValue s3 else s3)))"

subsection \<open>Construction by move, assignment, serialization\<close>

definition empty_mat :: "'v mat" where
  "empty_mat = \<lparr>n_rows = 0, n_cols = 0, mem = [], strict = False\<rparr>"

text \<open>
  \<open>FFN(FFN&& network)\<close>: the members named in the initializer list come from the
  source object; the three scratch matrices are not named and start empty.
\<close>

definition FFN_move :: "('n, 'o, 'r, 'v) FFN \<Rightarrow> ('n, 'o, 'r, 'v) FFN" where
  "FFN_move other =
     \<lparr>outputLayer = outputLayer other,
      initializeRule = initializeRule other,
      network = network other,
      parameters = parameters other,
      inputDimensions = inputDimensions other,
      predictors = predictors other,
      responses = responses other,
      networkOutput = empty_mat,
      networkDelta = empty_mat,
      error = empty_mat,
      training = training other,
      layerMemoryIsSet = False,
      inputDimensionsAreSet = inputDimensionsAreSet other\<rparr>"

text \<open>\<open>FFN(const FFN& network)\<close>, the copy constructor.\<close>

definition FFN_copy :: "('n, 'o, 'r, 'v) FFN \<Rightarrow> ('n, 'o, 'r, 'v) FFN" where
  "FFN_copy other =
     \<lparr>outputLayer = outputLayer other,
      initializeRule = initializeRule other,
      network = network other,
      parameters = parameters other,
      inputDimensions = inputDimensions other,
      predictors = predictors other,
      responses = responses other,
      networkOutput = empty_mat,
      networkDelta = empty_mat,
      error = empty_mat,
      training = training other,
      layerMemoryIsSet = False,
      inputDimensionsAreSet = False\<rparr>"

text \<open>
  \<open>operator=(const FFN& other)\<close> and \<open>operator=(FFN&& other)\<close>. \<open>sameObject\<close> is the
  outcome of the test \<open>this != &other\<close>, negated.
\<close>

definition copy_assign ::
  "bool \<Rightarrow> ('n, 'o, 'r, 'v) FFN \<Rightarrow> ('n, 'o, 'r, 'v) FFN \<Rightarrow> ('n, 'o, 'r, 'v) FFN" where
  "copy_assign sameObject this other =
     (if \<not> sameObject
      then this\<lparr>outputLayer := outputLayer other,
                initializeRule := initializeRule other,
                network := network other,
                parameters := parameters other,
                inputDimensions := inputDimensions other,
                predictors := predictors other,
                responses := responses other,
                networkOutput := networkOutput other,
                networkDelta := networkDelta other,
                error := error other,
                training := training other,
                inputDimensionsAreSet := inputDimensionsAreSet other,
                layerMemoryIsSet := False\<rparr>
      else this)"

definition move_assign ::
  "bool \<Rightarrow> ('n, 'o, 'r, 'v) FFN \<Rightarrow> ('n, 'o, 'r, 'v) FFN \<Rightarrow> ('n, 'o, 'r, 'v) FFN" where
  "move_assign sameObject this other =
     (if \<not> sameObject
      then this\<lparr>outputLayer := outputLayer other,
                initializeRule := initializeRule other,
                network := network other,
                parameters := parameters other,
                inputDimensions := inputDimensions other,
                predictors := predictors other,
                responses := responses other,
                networkOutput := networkOutput other,
                networkDelta := networkDelta other,
                error := error other,
                training := training other,
                inputDimensionsAreSet := inputDimensionsAreSet other,
                layerMemoryIsSet := layerMemoryIsSet other\<rparr>
      else this)"

text \<open>
  \<open>serialize\<close> passes six members through the archive. A loading archive
  (\<open>Some a\<close>, holding the values \<open>a\<close>) overwrites them and then clears the data, the
  scratch matrices and both flags; a saving archive (\<open>None\<close>) receives them.
\<close>

record ('n, 'o, 'r, 'v) archive =
  ar_outputLayer :: 'o
  ar_initializeRule :: 'r
  ar_network :: 'n
  ar_parameters :: "'v mat"
  ar_inputDimensions :: "nat list"
  ar_training :: bool

definition serialize ::
  "('n, 'o, 'r, 'v) archive option \<Rightarrow> ('n, 'o, 'r, 'v) FFN
     \<Rightarrow> ('n, 'o, 'r, 'v) archive \<times> ('n, 'o, 'r, 'v) FFN" where
  "serialize ar s =
     (case ar of
        None \<Rightarrow>
          (\<lparr>ar_outputLayer = outputLayer s, ar_initializeRule = initializeRule s,
            ar_network = network s, ar_parameters = parameters s,
            ar_inputDimensions = inputDimensions s, ar_training = training s\<rparr>, s)
      | Some a \<Rightarrow>
          (a, s\<lparr>outputLayer := ar_outputLayer a,
                initializeRule := ar_initializeRule a,
                network := ar_network a,
                parameters := ar_parameters a,
                inputDimensions := ar_inputDimensions a,
                training := ar_training a,
                predictors := clear (predictors s),
                responses := clear (responses s),
                networkOutput := clear (networkOutput s),
                networkDelta := clear (networkDelta s),
                layerMemoryIsSet := False,
                inputDimensionsAreSet := False\<rparr>))"

subsection \<open>Reset and WeightSize\<close>

text \<open>
  \<open>std::accumulate(inputDimensions.begin(), inputDimensions.end(), 0)\<close>: the default
  operation of \<open>accumulate\<close> is addition and the accumulator has the type of the
  initial value \<open>0\<close>, which is \<open>int\<close>. Each step adds in \<open>size_t\<close> and stores the low
  32 bits; the result is converted from \<open>int\<close> to \<open>size_t\<close> with sign extension.
\<close>

definition accumulate_int :: "nat list \<Rightarrow> nat" where
  "accumulate_int xs =
     (let a = foldl (\<lambda>a x. (a + x) mod 2 ^ 32) 0 xs
      in if a < 2 ^ 31 then a else a + (2 ^ 64 - 2 ^ 32))"

definition Reset ::
  "('n, 'o, 'r, 'v) collaborators \<Rightarrow> nat \<Rightarrow> ('n, 'o, 'r, 'v) FFN
     \<Rightarrow> (exn + unit) \<times> ('n, 'o, 'r, 'v) FFN" where
  "Reset E inputDimensionality s =
     (let s1 = s\<lparr>parameters := clear (parameters s)\<rparr>
      in if inputDimensionality \<noteq> 0
         then CheckNetwork E ''FFN::Reset()'' inputDimensionality True False s1
         else (let inputDims = accumulate_int (inputDimensions s1)
               in CheckNetwork E ''FFN::Reset()'' inputDims True False s1))"

definition WeightSize ::
  "('n, 'o, 'r, 'v) collaborators \<Rightarrow> ('n, 'o, 'r, 'v) FFN
     \<Rightarrow> (exn + nat) \<times> ('n, 'o, 'r, 'v) FFN" where
  "WeightSize E s =
     (case UpdateDimensions E ''FFN::WeightSize()'' (dflt_inputDimensionality E) s of
        (Inl e, s1) \<Rightarrow> (Inl e, s1)
      | (Inr _, s1) \<Rightarrow> (Inr (net_WeightSize E (network s1)), s1))"

subsection \<open>Forward and Backward\<close>

text \<open>
  \<open>Forward(inputs, results, begin, end)\<close>. The result is the matrix \<open>results\<close> as the
  call leaves it. The assignment \<open>results = networkOutput\<close> is skipped in the source
  when both are the same object, where it would change nothing.
\<close>

definition ForwardRange ::
  "('n, 'o, 'r, 'v) collaborators \<Rightarrow> 'v mat \<Rightarrow> 'v mat \<Rightarrow> nat \<Rightarrow> nat \<Rightarrow> ('n, 'o, 'r, 'v) FFN
     \<Rightarrow> (exn + 'v mat) \<times> ('n, 'o, 'r, 'v) FFN" where
  "ForwardRange E inputs results beginIdx endIdx s =
     (if endIdx < beginIdx then (Inr results, s)
      else
        case CheckNetwork E ''FFN::Forward()'' (n_rows inputs)
               (dflt_setMode E) (dflt_training E) s of
          (Inl e, s1) \<Rightarrow> (Inl e, s1)
        | (Inr _, s1) \<Rightarrow>
            (let s2 = s1\<lparr>networkOutput :=
                         set_size (junk E) (net_OutputSize E (network s1)) (n_cols inputs)
                           (networkOutput s1)\<rparr>;
                 (out, n) = net_ForwardRange E inputs (networkOutput s2) beginIdx endIdx
                              (network s2);
                 s3 = s2\<lparr>networkOutput := out, network := n\<rparr>
             in case mat_assign results (networkOutput s3) of
                  Inl e \<Rightarrow> (Inl e, s3)
                | Inr r \<Rightarrow> (Inr r, s3)))"

text \<open>\<open>Forward(inputs, results)\<close>: the last index is \<open>size() - 1\<close> in \<open>size_t\<close>.\<close>

definition Forward ::
  "('n, 'o, 'r, 'v) collaborators \<Rightarrow> 'v mat \<Rightarrow> 'v mat \<Rightarrow> ('n, 'o, 'r, 'v) FFN
     \<Rightarrow> (exn + 'v mat) \<times> ('n, 'o, 'r, 'v) FFN" where
  "Forward E inputs results s =
     ForwardRange E inputs results 0 ((net_size E (network s) + SIZE_T - 1) mod SIZE_T) s"

text \<open>\<open>Backward\<close> returns the loss, the matrix \<open>gradients\<close> and the object.\<close>

definition Backward ::
  "('n, 'o, 'r, 'v::plus) collaborators \<Rightarrow> 'v mat \<Rightarrow> 'v mat \<Rightarrow> 'v mat \<Rightarrow> ('n, 'o, 'r, 'v) FFN
     \<Rightarrow> 'v \<times> 'v mat \<times> ('n, 'o, 'r, 'v) FFN" where
  "Backward E inputs targets gradients s =
     (let res = out_Forward E (outputLayer s) (networkOutput s) targets + net_Loss E (network s);
          s1 = s\<lparr>error := out_Backward E (outputLayer s) (networkOutput s) targets (error s)\<rparr>;
          (delta, n1) = net_Backward E (networkOutput s1) (error s1) (networkDelta s1) (network s1);
          s2 = s1\<lparr>networkDelta := delta, network := n1\<rparr>;
          g0 = set_size (junk E) (n_rows (parameters s2)) (n_cols (parameters s2)) gradients;
          (g, n2) = net_Gradient E inputs (error s2) g0 (network s2)
      in (res, g, s2\<lparr>network := n2\<rparr>))"

subsection \<open>Evaluate\<close>

text \<open>\<open>Evaluate(predictors, responses)\<close>, on data supplied by the caller.\<close>

definition Evaluate_data ::
  "('n, 'o, 'r, 'v::plus) collaborators \<Rightarrow> 'v mat \<Rightarrow> 'v mat \<Rightarrow> ('n, 'o, 'r, 'v) FFN
     \<Rightarrow> (exn + 'v) \<times> ('n, 'o, 'r, 'v) FFN" where
  "Evaluate_data E predictorsArg responsesArg s =
     (case CheckNetwork E ''FFN::Evaluate()'' (n_rows predictorsArg)
             (dflt_setMode E) (dflt_training E) s of
        (Inl e, s1) \<Rightarrow> (Inl e, s1)
      | (Inr _, s1) \<Rightarrow>
          (let (out, n) = net_Forward E predictorsArg (networkOutput s1) (network s1);
               s2 = s1\<lparr>networkOutput := out, network := n\<rparr>
           in (Inr (out_Forward E (outputLayer s2) (networkOutput s2) responsesArg
                     + net_Loss E (network s2)), s2)))"

text \<open>
  \<open>Evaluate(parameters, begin, batchSize)\<close>, on the stored data. The last column is
  \<open>begin + batchSize - 1\<close> in \<open>size_t\<close>.
\<close>

definition lastCol :: "nat \<Rightarrow> nat \<Rightarrow> nat" where
  "lastCol beginIdx batchSize = (beginIdx + batchSize + SIZE_T - 1) mod SIZE_T"

definition Evaluate_batch ::
  "('n, 'o, 'r, 'v::plus) collaborators \<Rightarrow> 'v mat \<Rightarrow> nat \<Rightarrow> nat \<Rightarrow> ('n, 'o, 'r, 'v) FFN
     \<Rightarrow> (exn + 'v) \<times> ('n, 'o, 'r, 'v) FFN" where
  "Evaluate_batch E parametersArg beginIdx batchSize s =
     (case CheckNetwork E ''FFN::Evaluate()'' (n_rows (predictors s))
             (dflt_setMode E) (dflt_training E) s of
        (Inl e, s1) \<Rightarrow> (Inl e, s1)
      | (Inr _, s1) \<Rightarrow>
          (let s2 = s1\<lparr>networkOutput :=
                       set_size (junk E) (net_OutputSize E (network s1)) batchSize
                         (networkOutput s1)\<rparr>
           in case cols beginIdx (lastCol beginIdx batchSize) (predictors s2) of
                Inl e \<Rightarrow> (Inl e, s2)
              | Inr pc \<Rightarrow>
                  (let (out, n) = net_Forward E pc (networkOutput s2) (network s2);
                       s3 = s2\<lparr>networkOutput := out, network := n\<rparr>
                   in case cols beginIdx (lastCol beginIdx batchSize) (responses s3) of
                        Inl e \<Rightarrow> (Inl e, s3)
                      | Inr rc \<Rightarrow>
                          (Inr (out_Forward E (outputLayer s3) (networkOutput s3) rc
                                + net_Loss E (network s3)), s3))))"

subsection \<open>EvaluateWithGradient and Gradient\<close>

text \<open>
  \<open>EvaluateWithGradient(parameters, begin, gradient, batchSize)\<close> returns the objective
  and the matrix \<open>gradient\<close>. In its body \<open>parameters\<close> is the argument, which hides
  the member of the same name.
\<close>

definition EvaluateWithGradient_batch ::
  "('n, 'o, 'r, 'v::plus) collaborators \<Rightarrow> 'v mat \<Rightarrow> nat \<Rightarrow> 'v mat \<Rightarrow> nat \<Rightarrow> ('n, 'o, 'r, 'v) FFN
     \<Rightarrow> (exn + 'v \<times> 'v mat) \<times> ('n, 'o, 'r, 'v) FFN" where
  "EvaluateWithGradient_batch E parametersArg beginIdx gradient batchSize s =
     (case CheckNetwork E ''FFN::EvaluateWithGradient()'' (n_rows (predictors s))
             (dflt_setMode E) (dflt_training E) s of
        (Inl e, s1) \<Rightarrow> (Inl e, s1)
      | (Inr _, s1) \<Rightarrow>
          (let s2 = s1\<lparr>networkOutput :=
                       set_size (junk E) (net_OutputSize E (network s1)) batchSize
                         (networkOutput s1)\<rparr>
           in case cols beginIdx (lastCol beginIdx batchSize) (predictors s2) of
                Inl e \<Rightarrow> (Inl e, s2)
              | Inr pc \<Rightarrow>
                  (let (out, n) = net_Forward E pc (networkOutput s2) (network s2);
                       s3 = s2\<lparr>networkOutput := out, network := n\<rparr>
                   in case cols beginIdx (lastCol beginIdx batchSize) (responses s3) of
                        Inl e \<Rightarrow> (Inl e, s3)
                      | Inr rc \<Rightarrow>
                          (let obj = out_Forward E (outputLayer s3) (networkOutput s3) rc
                                       + net_Loss E (network s3);
                               s4 = s3\<lparr>error := out_Backward E (outputLayer s3)
                                                   (networkOutput s3) rc (error s3)\<rparr>;
                               s5 = s4\<lparr>networkDelta :=
                                         set_size (junk E) (n_rows (predictors s4)) batchSize
                                           (networkDelta s4)\<rparr>;
                               (delta, n1) = net_Backward E (networkOutput s5) (error s5)
                                               (networkDelta s5) (network s5);
                               s6 = s5\<lparr>networkDelta := delta, network := n1\<rparr>;
                               g0 = set_size (junk E) (n_rows parametersArg)
                                      (n_cols parametersArg) gradient;
                               (g, n2) = net_Gradient E pc (error s6) g0 (network s6)
                           in (Inr (obj, g), s6\<lparr>network := n2\<rparr>)))))"

definition Gradient ::
  "('n, 'o, 'r, 'v::plus) collaborators \<Rightarrow> 'v mat \<Rightarrow> nat \<Rightarrow> 'v mat \<Rightarrow> nat \<Rightarrow> ('n, 'o, 'r, 'v) FFN
     \<Rightarrow> (exn + 'v mat) \<times> ('n, 'o, 'r, 'v) FFN" where
  "Gradient E parametersArg beginIdx gradient batchSize s =
     (case EvaluateWithGradient_batch E parametersArg beginIdx gradient batchSize s of
        (Inl e, s1) \<Rightarrow> (Inl e, s1)
      | (Inr (obj, g), s1) \<Rightarrow> (Inr g, s1))"

subsection \<open>The stored data is never written by a pass\<close>

lemma UpdateDimensions_data:
  "UpdateDimensions E f d s = (r, s') \<Longrightarrow>
     predictors s' = predictors s \<and> responses s' = responses s"
  by (auto simp: UpdateDimensions_def Let_def split: if_splits)

lemma InitializeWeights_data:
  "predictors (InitializeWeights E s) = predictors s \<and>
   responses (InitializeWeights E s) = responses s"
  by (simp add: InitializeWeights_def SetNetworkMode_def Let_def split: prod.splits)

lemma SetLayerMemory_data:
  "SetLayerMemory E s = (r, s') \<Longrightarrow>
     predictors s' = predictors s \<and> responses s' = responses s"
  by (auto simp: SetLayerMemory_def Let_def split: if_splits)

lemma CheckNetwork_data:
  "CheckNetwork E f d m t s = (r, s') \<Longrightarrow>
     predictors s' = predictors s \<and> responses s' = responses s"
  unfolding CheckNetwork_def
  by (auto simp: Let_def InitializeWeights_data SetNetworkMode_def
      split: if_splits prod.splits sum.splits
      dest!: UpdateDimensions_data SetLayerMemory_data)

lemma Evaluate_batch_data:
  "Evaluate_batch E p b k s = (r, s') \<Longrightarrow>
     predictors s' = predictors s \<and> responses s' = responses s"
  unfolding Evaluate_batch_def
  by (auto simp: Let_def split: if_splits prod.splits sum.splits dest!: CheckNetwork_data)

lemma EvaluateWithGradient_batch_data:
  "EvaluateWithGradient_batch E p b g k s = (r, s') \<Longrightarrow>
     predictors s' = predictors s \<and> responses s' = responses s"
  unfolding EvaluateWithGradient_batch_def
  by (auto simp: Let_def split: if_splits prod.splits sum.splits dest!: CheckNetwork_data)

subsection \<open>The full-dataset variants\<close>

text \<open>
  \<open>Evaluate(parameters)\<close>: the loop \<open>for (i = 0; i < predictors.n_cols; ++i)\<close> reads
  the number of columns of the member at every test. The increment cannot wrap, since
  \<open>i\<close> is below a value of type \<open>size_t\<close>.
\<close>

function Evaluate_loop ::
  "('n, 'o, 'r, 'v::plus) collaborators \<Rightarrow> 'v mat \<Rightarrow> nat \<Rightarrow> 'v \<Rightarrow> ('n, 'o, 'r, 'v) FFN
     \<Rightarrow> (exn + 'v) \<times> ('n, 'o, 'r, 'v) FFN" where
  "Evaluate_loop E parametersArg i res s =
     (if i < n_cols (predictors s)
      then (case Evaluate_batch E parametersArg i 1 s of
              (Inl e, s1) \<Rightarrow> (Inl e, s1)
            | (Inr x, s1) \<Rightarrow> Evaluate_loop E parametersArg (Suc i) (res + x) s1)
      else (Inr res, s))"
  by pat_completeness auto
termination
  by (relation "measure (\<lambda>(E, p, i, res, s). n_cols (predictors s) - i)")
     (auto dest!: Evaluate_batch_data [OF sym])

declare Evaluate_loop.simps [simp del]

definition Evaluate_full ::
  "('n, 'o, 'r, 'v::{plus,zero}) collaborators \<Rightarrow> 'v mat \<Rightarrow> ('n, 'o, 'r, 'v) FFN
     \<Rightarrow> (exn + 'v) \<times> ('n, 'o, 'r, 'v) FFN" where
  "Evaluate_full E parametersArg s = Evaluate_loop E parametersArg 0 0 s"

text \<open>
  \<open>EvaluateWithGradient(parameters, gradient)\<close>: one call at column 0 into the
  caller's \<open>gradient\<close>, then the loop from column 1 with a fresh \<open>tmpGradient\<close> each
  time.
\<close>

function EvaluateWithGradient_loop ::
  "('n, 'o, 'r, 'v::plus) collaborators \<Rightarrow> 'v mat \<Rightarrow> nat \<Rightarrow> 'v \<Rightarrow> 'v mat \<Rightarrow> ('n, 'o, 'r, 'v) FFN
     \<Rightarrow> (exn + 'v \<times> 'v mat) \<times> ('n, 'o, 'r, 'v) FFN" where
  "EvaluateWithGradient_loop E parametersArg i res gradient s =
     (if i < n_cols (predictors s)
      then (let tmpGradient = new_mat (junk E) (n_rows gradient) (n_cols gradient)
            in case EvaluateWithGradient_batch E parametersArg i tmpGradient 1 s of
                 (Inl e, s1) \<Rightarrow> (Inl e, s1)
               | (Inr (x, tmpGradient1), s1) \<Rightarrow>
                   (case mat_add_assign gradient tmpGradient1 of
                      Inl e \<Rightarrow> (Inl e, s1)
                    | Inr gradient1 \<Rightarrow>
                        EvaluateWithGradient_loop E parametersArg (Suc i) (res + x) gradient1 s1))
      else (Inr (res, gradient), s))"
  by pat_completeness auto
termination
  by (relation "measure (\<lambda>(E, p, i, res, g, s). n_cols (predictors s) - i)")
     (auto dest!: EvaluateWithGradient_batch_data [OF sym])

declare EvaluateWithGradient_loop.simps [simp del]

definition EvaluateWithGradient_full ::
  "('n, 'o, 'r, 'v::{plus,zero}) collaborators \<Rightarrow> 'v mat \<Rightarrow> 'v mat \<Rightarrow> ('n, 'o, 'r, 'v) FFN
     \<Rightarrow> (exn + 'v \<times> 'v mat) \<times> ('n, 'o, 'r, 'v) FFN" where
  "EvaluateWithGradient_full E parametersArg gradient s =
     (case EvaluateWithGradient_batch E parametersArg 0 gradient 1 s of
        (Inl e, s1) \<Rightarrow> (Inl e, s1)
      | (Inr (x, gradient1), s1) \<Rightarrow>
          EvaluateWithGradient_loop E parametersArg 1 (0 + x) gradient1 s1)"

subsection \<open>Predict and Train\<close>

text \<open>
  The loop of \<open>Predict\<close>, \<open>for (i = 0; i < predictors.n_cols; i += batchSize)\<close>, does
  not end when \<open>batchSize\<close> is 0, and \<open>i += batchSize\<close> can wrap: the loop is a partial
  function, and \<open>None\<close> is a run that never returns. Each round hands \<open>Forward\<close> a view
  of the predictors and a view of \<open>results\<close>; what \<open>Forward\<close> assigns to the second
  view lands in the memory of \<open>results\<close>.
\<close>

partial_function (option) Predict_loop ::
  "('n, 'o, 'r, 'v) collaborators \<Rightarrow> 'v mat \<Rightarrow> nat \<Rightarrow> nat \<Rightarrow> 'v mat \<Rightarrow> ('n, 'o, 'r, 'v) FFN
     \<Rightarrow> ((exn + 'v mat) \<times> ('n, 'o, 'r, 'v) FFN) option" where
  "Predict_loop E predictorsArg batchSize i results s =
     (if i < n_cols predictorsArg
      then (let effectiveBatchSize = min batchSize (n_cols predictorsArg - i);
                predictorAlias = col_view predictorsArg i (n_rows predictorsArg)
                                   effectiveBatchSize;
                resultAlias = col_view results i (n_rows results) effectiveBatchSize
            in case Forward E predictorAlias resultAlias s of
                 (Inl e, s1) \<Rightarrow> Some (Inl e, s1)
               | (Inr resultAlias1, s1) \<Rightarrow>
                   Predict_loop E predictorsArg batchSize ((i + batchSize) mod SIZE_T)
                     (write_view results i resultAlias1) s1)
      else Some (Inr results, s))"

definition Predict ::
  "('n, 'o, 'r, 'v) collaborators \<Rightarrow> 'v mat \<Rightarrow> 'v mat \<Rightarrow> nat \<Rightarrow> ('n, 'o, 'r, 'v) FFN
     \<Rightarrow> ((exn + 'v mat) \<times> ('n, 'o, 'r, 'v) FFN) option" where
  "Predict E predictorsArg results batchSize s =
     (case CheckNetwork E ''FFN::Predict()'' (n_rows predictorsArg) True False s of
        (Inl e, s1) \<Rightarrow> Some (Inl e, s1)
      | (Inr _, s1) \<Rightarrow>
          Predict_loop E predictorsArg batchSize 0
            (set_size (junk E) (net_OutputSize E (network s1)) (n_cols predictorsArg) results)
            s1)"

text \<open>
  \<open>Train\<close>: the optimizer is a template parameter; \<open>optimize\<close> is its call
  \<open>Optimize(*this, parameters, callbacks...)\<close> as a function of the object. The
  warning about the iteration cap, the timers and the log write nothing to the object.
\<close>

definition Train ::
  "('n, 'o, 'r, 'v) collaborators
     \<Rightarrow> (('n, 'o, 'r, 'v) FFN \<Rightarrow> (exn + 'v) \<times> ('n, 'o, 'r, 'v) FFN)
     \<Rightarrow> 'v mat \<Rightarrow> 'v mat \<Rightarrow> ('n, 'o, 'r, 'v) FFN
     \<Rightarrow> (exn + 'v) \<times> ('n, 'o, 'r, 'v) FFN" where
  "Train E optimize predictorsArg responsesArg s =
     (let s1 = ResetData E predictorsArg responsesArg s
      in case CheckNetwork E ''FFN::Train()'' (n_rows (predictors s1)) True True s1 of
           (Inl e, s2) \<Rightarrow> (Inl e, s2)
         | (Inr _, s2) \<Rightarrow> optimize s2)"

subsection \<open>A small layer graph to run the functions on\<close>

text \<open>
  The columns of a matrix, in order.
\<close>

definition mat_columns :: "'v mat \<Rightarrow> 'v list list" where
  "mat_columns m = map (\<lambda>j. take (n_rows m) (drop (j * n_rows m) (mem m))) [0..<n_cols m]"

text \<open>
  An instance of the collaborators, used only to evaluate the functions above on
  concrete inputs: a graph of \<open>layers\<close> layers with \<open>units\<close> weights for each input
  element, which maps each example to the inner product with the bound weights, a
  difference loss, and an initializer that sizes the buffer to one column of the
  weight count and fills it with the value of its rule.
\<close>

record toy_net =
  layers :: nat
  units :: nat
  in_dims :: "nat list"
  mode :: bool
  weights :: "int list"

definition toy :: "(toy_net, unit, int, int) collaborators" where
  "toy =
     \<lparr>net_size = layers,
      net_WeightSize = (\<lambda>n. units n * prod_list (in_dims n)),
      net_OutputSize = (\<lambda>n. 1),
      net_Loss = (\<lambda>n. 0),
      net_InputDimensions = in_dims,
      net_InputDimensions_upd = (\<lambda>d n. n\<lparr>in_dims := d\<rparr>),
      net_Training_upd = (\<lambda>b n. n\<lparr>mode := b\<rparr>),
      net_ComputeOutputDimensions = (\<lambda>n. n),
      net_SetWeights = (\<lambda>p n. n\<lparr>weights := mem p\<rparr>),
      net_Forward = (\<lambda>inp out n.
         (out\<lparr>mem := concat (map (\<lambda>c. [sum_list (map2 (*) (weights n) c)])
                               (mat_columns inp))\<rparr>, n)),
      net_ForwardRange = (\<lambda>inp out b e n.
         (out\<lparr>mem := concat (map (\<lambda>c. [sum_list (map2 (*) (weights n) c)])
                               (mat_columns inp))\<rparr>, n)),
      net_Backward = (\<lambda>out err delta n. (delta, n)),
      net_Gradient = (\<lambda>inp err g n. (g\<lparr>mem := replicate (n_rows g * n_cols g) (sum_list (mem inp))\<rparr>, n)),
      out_Forward = (\<lambda>_ pred target. sum_list (map2 (-) (mem pred) (mem target))),
      out_Backward = (\<lambda>_ pred target err. pred\<lparr>mem := map2 (-) (mem pred) (mem target)\<rparr>),
      init_Initialize = (\<lambda>r n p.
         (n, (set_size r (units n * prod_list (in_dims n)) 1 p)
               \<lparr>mem := replicate (units n * prod_list (in_dims n)) r\<rparr>)),
      junk = 0,
      dflt_setMode = False,
      dflt_training = False,
      dflt_inputDimensionality = 0\<rparr>"

definition toy_core :: "nat \<Rightarrow> nat list \<Rightarrow> (toy_net, unit, int, int) FFN" where
  "toy_core k dims =
     \<lparr>outputLayer = (), initializeRule = 1,
      network = \<lparr>layers = k, units = 1, in_dims = [], mode = False, weights = []\<rparr>,
      parameters = empty_mat, inputDimensions = dims,
      predictors = empty_mat, responses = empty_mat,
      networkOutput = empty_mat, networkDelta = empty_mat, error = empty_mat,
      training = False, layerMemoryIsSet = False, inputDimensionsAreSet = False\<rparr>"

definition mat_of :: "nat \<Rightarrow> nat \<Rightarrow> 'v list \<Rightarrow> 'v mat" where
  "mat_of r c xs = \<lparr>n_rows = r, n_cols = c, mem = xs, strict = False\<rparr>"

text \<open>The two exceptions of the gatekeeper, by the name of the function that raised.\<close>

definition no_layers :: "string \<Rightarrow> exn" where
  "no_layers functionName =
     invalid_argument (functionName @ '': cannot use network with no layers!'')"

definition size_mismatch :: "string \<Rightarrow> exn" where
  "size_mismatch functionName =
     logic_error (functionName @
       '': input size does not match expected size set with InputDimensions()!'')"

subsection \<open>The full-dataset variants, example by example\<close>

text \<open>
  The reading of the claim: the single-example evaluations for the columns of a list,
  one after the other on the same object, each returning its objective (and its
  gradient), and then the sum of what they returned. The first gradient is written
  into the caller's matrix, each later one into a fresh matrix of the shape of the
  \<open>parameters\<close> argument. An exception ends the run.
\<close>

fun Evaluate_each ::
  "('n, 'o, 'r, 'v::plus) collaborators \<Rightarrow> 'v mat \<Rightarrow> nat list \<Rightarrow> ('n, 'o, 'r, 'v) FFN
     \<Rightarrow> (exn + 'v list) \<times> ('n, 'o, 'r, 'v) FFN" where
  "Evaluate_each E p [] s = (Inr [], s)"
| "Evaluate_each E p (i # is) s =
     (case Evaluate_batch E p i 1 s of
        (Inl e, s1) \<Rightarrow> (Inl e, s1)
      | (Inr x, s1) \<Rightarrow>
          (case Evaluate_each E p is s1 of
             (Inl e, s2) \<Rightarrow> (Inl e, s2)
           | (Inr xs, s2) \<Rightarrow> (Inr (x # xs), s2)))"

fun EvaluateWithGradient_each ::
  "('n, 'o, 'r, 'v::plus) collaborators \<Rightarrow> 'v mat \<Rightarrow> nat list \<Rightarrow> 'v mat \<Rightarrow> ('n, 'o, 'r, 'v) FFN
     \<Rightarrow> (exn + ('v \<times> 'v mat) list) \<times> ('n, 'o, 'r, 'v) FFN" where
  "EvaluateWithGradient_each E p [] buf s = (Inr [], s)"
| "EvaluateWithGradient_each E p (i # is) buf s =
     (case EvaluateWithGradient_batch E p i buf 1 s of
        (Inl e, s1) \<Rightarrow> (Inl e, s1)
      | (Inr xg, s1) \<Rightarrow>
          (case EvaluateWithGradient_each E p is
                  (new_mat (junk E) (n_rows p) (n_cols p)) s1 of
             (Inl e, s2) \<Rightarrow> (Inl e, s2)
           | (Inr xgs, s2) \<Rightarrow> (Inr (xg # xgs), s2)))"

text \<open>The element-wise sum of matrices, and of a list of them from its first.\<close>

definition mat_plus :: "'v::plus mat \<Rightarrow> 'v mat \<Rightarrow> 'v mat" where
  "mat_plus a b = a\<lparr>mem := map2 (+) (mem a) (mem b)\<rparr>"

fun sum_gradients :: "'v::plus mat list \<Rightarrow> 'v mat" where
  "sum_gradients [] = empty_mat"
| "sum_gradients (g # gs) = foldl mat_plus g gs"

text \<open>The sums the claim speaks of, from 0 and from left to right.\<close>

definition total_objective ::
  "(exn + 'v::{plus,zero} list) \<times> 's \<Rightarrow> (exn + 'v) \<times> 's" where
  "total_objective r =
     (case r of (Inl e, s) \<Rightarrow> (Inl e, s) | (Inr xs, s) \<Rightarrow> (Inr (foldl (+) 0 xs), s))"

definition total_objective_gradient ::
  "(exn + ('v::{plus,zero} \<times> 'v mat) list) \<times> 's \<Rightarrow> (exn + 'v \<times> 'v mat) \<times> 's" where
  "total_objective_gradient r =
     (case r of
        (Inl e, s) \<Rightarrow> (Inl e, s)
      | (Inr xgs, s) \<Rightarrow> (Inr (foldl (+) 0 (map fst xgs), sum_gradients (map snd xgs)), s))"

text \<open>The stored data of the examples below: two examples of two rows.\<close>

definition toy_data :: "(toy_net, unit, int, int) FFN" where
  "toy_data = (toy_core 1 [])\<lparr>predictors := mat_of 2 2 [1, 2, 3, 4],
                               responses := mat_of 1 2 [1, 2]\<rparr>"

subsection \<open>What the gatekeeper relies on\<close>

text \<open>
  What the gatekeeper relies on from the collaborators: binding the weights and
  setting the mode change neither the number of layers nor the weight count, setting
  the mode twice is setting it once, propagating dimensions and initializing keep
  the number of layers, and the initializer returns a buffer of the weight count.
\<close>

definition keeps_structure :: "('n, 'o, 'r, 'v) collaborators \<Rightarrow> bool" where
  "keeps_structure E =
     ((\<forall>p n. net_size E (net_SetWeights E p n) = net_size E n
            \<and> net_WeightSize E (net_SetWeights E p n) = net_WeightSize E n)
    \<and> (\<forall>b n. net_size E (net_Training_upd E b n) = net_size E n
            \<and> net_WeightSize E (net_Training_upd E b n) = net_WeightSize E n
            \<and> net_Training_upd E b (net_Training_upd E b n) = net_Training_upd E b n)
    \<and> (\<forall>n. net_size E (net_ComputeOutputDimensions E n) = net_size E n)
    \<and> (\<forall>d n. net_size E (net_InputDimensions_upd E d n) = net_size E n)
    \<and> (\<forall>r n p. net_size E (fst (init_Initialize E r n p)) = net_size E n
            \<and> n_elem (snd (init_Initialize E r n p)) =
                net_WeightSize E (fst (init_Initialize E r n p))))"

text \<open>The state the gatekeeper establishes.\<close>

definition ready :: "('n, 'o, 'r, 'v) collaborators \<Rightarrow> ('n, 'o, 'r, 'v) FFN \<Rightarrow> bool" where
  "ready E s =
     (inputDimensionsAreSet s \<and> layerMemoryIsSet s \<and> net_size E (network s) \<noteq> 0
      \<and> n_elem (parameters s) = net_WeightSize E (network s))"

text \<open>
  A graph without weights, and collaborators that differ from \<open>toy\<close> in the
  initializer only: it shapes the buffer as one row.
\<close>

definition toy_weightless :: "(toy_net, unit, int, int) FFN" where
  "toy_weightless = (toy_core 1 [])\<lparr>network := (network (toy_core 1 []))\<lparr>units := 0\<rparr>\<rparr>"

definition toy_row :: "(toy_net, unit, int, int) collaborators" where
  "toy_row = toy\<lparr>init_Initialize := (\<lambda>r n p.
       (n, (set_size r 1 (units n * prod_list (in_dims n)) p)
             \<lparr>mem := replicate (units n * prod_list (in_dims n)) r\<rparr>))\<rparr>"

subsection \<open>Deterministic graphs\<close>






subsection \<open>Evaluation of the examples\<close>

lemmas toy_simps = toy_def toy_core_def mat_of_def empty_mat_def Reset_def CheckNetwork_def UpdateDimensions_def
  clear_def accumulate_int_def totalInputSize_def SIZE_T_def InitializeWeights_def SetNetworkMode_def
  SetLayerMemory_def is_empty_def n_elem_def set_size_def Predict_def Forward_def ForwardRange_def
  col_view_def write_view_def mat_assign_def mat_columns_def Train_def ResetData_def
  EvaluateWithGradient_full_def EvaluateWithGradient_batch_def Evaluate_full_def Evaluate_batch_def
  cols_def lastCol_def new_mat_def mat_add_assign_def Let_def

lemma replicate_numeral: "replicate (numeral k) x = x # replicate (pred_numeral k) x"
  by (simp add: numeral_eq_Suc)

lemma mat_of_sel [simp]:
  "n_rows (mat_of r c xs) = r" "n_cols (mat_of r c xs) = c" "mem (mat_of r c xs) = xs"
  by (simp_all add: mat_of_def)

section \<open>Properties\<close>

subsection \<open>The empty layer graph\<close>

lemma CheckNetwork_no_layers:
  "net_size E (network s) = 0 \<Longrightarrow> CheckNetwork E f d m t s = (Inl (no_layers f), s)"
  by (simp add: CheckNetwork_def no_layers_def)

text \<open>
  C1, as amended. When the layer graph has no layers, \<open>Predict\<close>, \<open>Forward\<close> (over
  the whole graph, or over a range of layers that is not empty), both
  \<open>Evaluate\<close> on given data and on a batch, \<open>EvaluateWithGradient\<close> and \<open>Gradient\<close>
  raise \<open>invalid_argument\<close> with the message of the function that ran \<open>CheckNetwork\<close>
  and leave the object exactly as it was; the full-dataset \<open>Evaluate\<close> does so when
  there is at least one stored example. \<open>Train\<close> raises the same exception, but the
  object it leaves is the one \<open>ResetData\<close> produced: the data is stored and training
  mode is on. Nothing else has happened: no dimension propagation, no weight
  initialization, no alias binding.
\<close>

theorem empty_graph_invalid_network:
  assumes "net_size E (network s) = 0"
  shows "Predict E P r k s = Some (Inl (no_layers ''FFN::Predict()''), s)
    \<and> Forward E inp r s = (Inl (no_layers ''FFN::Forward()''), s)
    \<and> (beginIdx \<le> endIdx \<longrightarrow>
          ForwardRange E inp r beginIdx endIdx s = (Inl (no_layers ''FFN::Forward()''), s))
    \<and> Evaluate_data E P R s = (Inl (no_layers ''FFN::Evaluate()''), s)
    \<and> Evaluate_batch E p b k s = (Inl (no_layers ''FFN::Evaluate()''), s)
    \<and> EvaluateWithGradient_batch E p b g k s = (Inl (no_layers ''FFN::EvaluateWithGradient()''), s)
    \<and> EvaluateWithGradient_full E p g s = (Inl (no_layers ''FFN::EvaluateWithGradient()''), s)
    \<and> Gradient E p b g k s = (Inl (no_layers ''FFN::EvaluateWithGradient()''), s)
    \<and> (0 < n_cols (predictors s) \<longrightarrow>
          Evaluate_full E p s = (Inl (no_layers ''FFN::Evaluate()''), s))
    \<and> (net_size E (net_Training_upd E True (network s)) = 0 \<longrightarrow>
          Train E opt P R s = (Inl (no_layers ''FFN::Train()''), ResetData E P R s))"
proof -
  note cn = CheckNetwork_no_layers [OF assms]
  have predict: "Predict E P r k s = Some (Inl (no_layers ''FFN::Predict()''), s)"
    by (simp add: Predict_def cn)
  have forward: "Forward E inp r s = (Inl (no_layers ''FFN::Forward()''), s)"
    by (simp add: Forward_def ForwardRange_def cn)
  have range: "beginIdx \<le> endIdx \<longrightarrow>
      ForwardRange E inp r beginIdx endIdx s = (Inl (no_layers ''FFN::Forward()''), s)"
    by (simp add: ForwardRange_def cn)
  have eval_data: "Evaluate_data E P R s = (Inl (no_layers ''FFN::Evaluate()''), s)"
    by (simp add: Evaluate_data_def cn)
  have eval_batch: "\<And>b k. Evaluate_batch E p b k s = (Inl (no_layers ''FFN::Evaluate()''), s)"
    by (simp add: Evaluate_batch_def cn)
  have ewg_batch: "\<And>b g k. EvaluateWithGradient_batch E p b g k s =
      (Inl (no_layers ''FFN::EvaluateWithGradient()''), s)"
    by (simp add: EvaluateWithGradient_batch_def cn)
  have ewg_full: "EvaluateWithGradient_full E p g s =
      (Inl (no_layers ''FFN::EvaluateWithGradient()''), s)"
    by (simp add: EvaluateWithGradient_full_def ewg_batch)
  have gradient: "Gradient E p b g k s = (Inl (no_layers ''FFN::EvaluateWithGradient()''), s)"
    by (simp add: Gradient_def ewg_batch)
  have eval_full: "0 < n_cols (predictors s) \<longrightarrow>
      Evaluate_full E p s = (Inl (no_layers ''FFN::Evaluate()''), s)"
    by (simp add: Evaluate_full_def Evaluate_loop.simps [of E p 0 0 s] eval_batch)
  have train: "net_size E (net_Training_upd E True (network s)) = 0 \<longrightarrow>
      Train E opt P R s = (Inl (no_layers ''FFN::Train()''), ResetData E P R s)"
    by (simp add: Train_def Let_def CheckNetwork_no_layers ResetData_def SetNetworkMode_def)
  from predict forward range eval_data eval_batch ewg_batch ewg_full gradient eval_full train
  show ?thesis by blast
qed

theorem empty_graph_invalid_network_witness:
  "Predict toy (mat_of 2 1 [1, 2]) empty_mat 1 (toy_core 0 []) =
     Some (Inl (no_layers ''FFN::Predict()''), toy_core 0 [])
   \<and> Train toy (\<lambda>s. (Inr 0, s)) (mat_of 2 1 [1, 2]) (mat_of 1 1 [1]) (toy_core 0 []) =
     (Inl (no_layers ''FFN::Train()''),
      ResetData toy (mat_of 2 1 [1, 2]) (mat_of 1 1 [1]) (toy_core 0 []))"
  using empty_graph_invalid_network [where E = toy and s = "toy_core 0 []"
      and P = "mat_of 2 1 [1, 2]" and r = empty_mat and k = 1
      and opt = "\<lambda>s. (Inr 0, s)" and R = "mat_of 1 1 [1]"]
  by (simp add: toy_def toy_core_def)

text \<open>
  C1 as stated fails for \<open>Train\<close>: on a graph without layers the call raises, and the
  object is not the one it started from.
\<close>

theorem Train_empty_graph_counterexample:
  "net_size toy (network (toy_core 0 [])) = 0
   \<and> snd (Train toy (\<lambda>s. (Inr 0, s)) (mat_of 2 1 [1, 2]) (mat_of 1 1 [1]) (toy_core 0 []))
       \<noteq> toy_core 0 []"
proof -
  have "training (snd (Train toy (\<lambda>s. (Inr 0, s)) (mat_of 2 1 [1, 2]) (mat_of 1 1 [1])
          (toy_core 0 [])))"
    by (simp add: Train_def ResetData_def SetNetworkMode_def CheckNetwork_def toy_def
        toy_core_def Let_def)
  moreover have "\<not> training (toy_core 0 [])"
    by (simp add: toy_core_def)
  ultimately show ?thesis
    by (auto simp: toy_def toy_core_def)
qed

subsection \<open>The size check of UpdateDimensions\<close>

lemma totalInputSize_prod_aux:
  "foldl (\<lambda>t d. (t * d) mod m) (a mod m) xs = (a * prod_list xs) mod (m::nat)"
proof (induction xs arbitrary: a)
  case Nil
  show ?case by simp
next
  case (Cons x xs)
  have "foldl (\<lambda>t d. (t * d) mod m) (a mod m) (x # xs)
      = foldl (\<lambda>t d. (t * d) mod m) ((a * x) mod m) xs"
    by (simp add: mod_mult_left_eq)
  also have "\<dots> = (a * x * prod_list xs) mod m"
    by (rule Cons.IH)
  finally show ?case by (simp add: mult.assoc)
qed

lemma totalInputSize_prod: "totalInputSize dims = prod_list dims mod SIZE_T"
  using totalInputSize_prod_aux [of SIZE_T 1 dims]
  by (simp add: totalInputSize_def SIZE_T_def)

text \<open>
  C8. \<open>UpdateDimensions\<close> raises the size-mismatch exception exactly when its
  argument is not zero and differs from the product of the recorded input dimensions
  (the stored ones, or the argument alone when none are stored), the product being
  taken in \<open>size_t\<close>. Otherwise it returns. When it raises, at most the recorded
  dimensions have been written, and for an argument that is a \<open>size_t\<close> value nothing
  has: the parameters, the graph and both flags are as before.
\<close>

theorem UpdateDimensions_size_mismatch:
  "(let dims = (if inputDimensions s = [] then [d] else inputDimensions s);
        mismatch = (d \<noteq> 0 \<and> prod_list dims mod SIZE_T \<noteq> d)
    in (fst (UpdateDimensions E f d s) = Inl (size_mismatch f) \<longleftrightarrow> mismatch)
     \<and> (fst (UpdateDimensions E f d s) = Inr () \<longleftrightarrow> \<not> mismatch)
     \<and> (mismatch \<longrightarrow> snd (UpdateDimensions E f d s) = s\<lparr>inputDimensions := dims\<rparr>)
     \<and> (mismatch \<longrightarrow> d < SIZE_T \<longrightarrow> snd (UpdateDimensions E f d s) = s))"
proof (cases "inputDimensions s = []")
  case True
  have "d < SIZE_T \<Longrightarrow> d mod SIZE_T = d" by simp
  with True show ?thesis
    by (auto simp: UpdateDimensions_def Let_def totalInputSize_prod size_mismatch_def)
next
  case False
  then show ?thesis
    by (auto simp: UpdateDimensions_def Let_def totalInputSize_prod size_mismatch_def)
qed

theorem UpdateDimensions_size_mismatch_witness:
  "fst (UpdateDimensions toy ''FFN::Train()'' 5 (toy_core 1 [2, 2])) =
     Inl (size_mismatch ''FFN::Train()'')
   \<and> snd (UpdateDimensions toy ''FFN::Train()'' 5 (toy_core 1 [2, 2])) = toy_core 1 [2, 2]
   \<and> fst (UpdateDimensions toy ''FFN::Train()'' 4 (toy_core 1 [2, 2])) = Inr ()
   \<and> fst (UpdateDimensions toy ''FFN::Train()'' 0 (toy_core 1 [2, 2])) = Inr ()"
  using UpdateDimensions_size_mismatch [of "toy_core 1 [2, 2]" 5 toy "''FFN::Train()''"]
    UpdateDimensions_size_mismatch [of "toy_core 1 [2, 2]" 4 toy "''FFN::Train()''"]
    UpdateDimensions_size_mismatch [of "toy_core 1 [2, 2]" 0 toy "''FFN::Train()''"]
  by (simp add: Let_def toy_core_def SIZE_T_def)

subsection \<open>The readiness flags after a move and after loading\<close>

text \<open>
  C5, as amended. After loading from an archive both flags are false. The move
  constructor clears \<open>layerMemoryIsSet\<close> and takes \<open>inputDimensionsAreSet\<close> from the
  source; move assignment from another object takes \<open>inputDimensionsAreSet\<close> from the
  source as well.
\<close>

theorem flags_after_move_and_load:
  "layerMemoryIsSet (FFN_move other) = False
   \<and> inputDimensionsAreSet (FFN_move other) = inputDimensionsAreSet other
   \<and> inputDimensionsAreSet (move_assign False this other) = inputDimensionsAreSet other
   \<and> layerMemoryIsSet (snd (serialize (Some a) s)) = False
   \<and> inputDimensionsAreSet (snd (serialize (Some a) s)) = False"
  by (simp add: FFN_move_def move_assign_def serialize_def)

text \<open>
  C5 as stated fails: moving from an object whose dimensions are propagated gives an
  object whose \<open>inputDimensionsAreSet\<close> is true.
\<close>

theorem move_keeps_inputDimensionsAreSet_counterexample:
  "\<not> (\<not> layerMemoryIsSet (FFN_move ((toy_core 1 [2])\<lparr>inputDimensionsAreSet := True\<rparr>))
      \<and> \<not> inputDimensionsAreSet (FFN_move ((toy_core 1 [2])\<lparr>inputDimensionsAreSet := True\<rparr>)))"
  by (simp add: FFN_move_def toy_core_def)

subsection \<open>The parameters argument of the mini-batch Evaluate\<close>

text \<open>
  C9. The mini-batch \<open>Evaluate\<close> does not depend on its \<open>parameters\<close> argument: from
  the same object and with the same \<open>begin\<close> and \<open>batchSize\<close>, any two argument
  matrices give the same outcome and leave the same object.
\<close>

theorem Evaluate_batch_ignores_parameters:
  "Evaluate_batch E parameters1 beginIdx batchSize s =
   Evaluate_batch E parameters2 beginIdx batchSize s"
  by (simp add: Evaluate_batch_def)

subsection \<open>Reset without an argument\<close>

text \<open>
  C4 at a failing input. With the stored dimensions \<open>[2, 3]\<close>, whose product is 6,
  \<open>Reset(6)\<close> returns, but \<open>Reset(0)\<close> hands \<open>CheckNetwork\<close> the sum 5 of the
  dimensions and raises the size-mismatch exception.
\<close>

theorem Reset_zero_sums_dimensions:
  "prod_list (inputDimensions (toy_core 1 [2, 3])) = 6
   \<and> fst (Reset toy 6 (toy_core 1 [2, 3])) = Inr ()
   \<and> accumulate_int (inputDimensions (toy_core 1 [2, 3])) = 5
   \<and> fst (Reset toy 0 (toy_core 1 [2, 3])) = Inl (size_mismatch ''FFN::Reset()'')"
  by (simp add: toy_simps size_mismatch_def)

subsection \<open>The full-dataset variants on an empty dataset\<close>

text \<open>
  The gatekeeper neither reads nor writes the stored responses, and it leaves the
  member \<open>error\<close> alone: run on an object with other responses, it gives the same
  outcome and the same object, with those responses.
\<close>

lemma SetNetworkMode_responses:
  "SetNetworkMode E t (s\<lparr>responses := r\<rparr>) = (SetNetworkMode E t s)\<lparr>responses := r\<rparr>"
  by (simp add: SetNetworkMode_def)

lemma InitializeWeights_responses:
  "InitializeWeights E (s\<lparr>responses := r\<rparr>) = (InitializeWeights E s)\<lparr>responses := r\<rparr>"
  by (simp add: InitializeWeights_def SetNetworkMode_def Let_def split: prod.splits)

lemma UpdateDimensions_responses:
  "UpdateDimensions E f d (s\<lparr>responses := r\<rparr>) =
     (fst (UpdateDimensions E f d s), (snd (UpdateDimensions E f d s))\<lparr>responses := r\<rparr>)"
  by (auto simp: UpdateDimensions_def Let_def)

lemma SetLayerMemory_responses:
  "SetLayerMemory E (s\<lparr>responses := r\<rparr>) =
     (fst (SetLayerMemory E s), (snd (SetLayerMemory E s))\<lparr>responses := r\<rparr>)"
  by (simp add: SetLayerMemory_def Let_def)

lemma CheckNetwork_unfold:
  assumes "net_size E (network s) \<noteq> 0"
    and "(if \<not> inputDimensionsAreSet s then UpdateDimensions E f d s else (Inr (), s))
           = (Inr x, su)"
    and "(if \<not> layerMemoryIsSet
             (if is_empty (parameters su) then InitializeWeights E su
              else if n_elem (parameters su) \<noteq> net_WeightSize E (network su)
              then InitializeWeights E (su\<lparr>parameters := clear (parameters su)\<rparr>)
              else su)
      then SetLayerMemory E
             (if is_empty (parameters su) then InitializeWeights E su
              else if n_elem (parameters su) \<noteq> net_WeightSize E (network su)
              then InitializeWeights E (su\<lparr>parameters := clear (parameters su)\<rparr>)
              else su)
      else (Inr (),
             (if is_empty (parameters su) then InitializeWeights E su
              else if n_elem (parameters su) \<noteq> net_WeightSize E (network su)
              then InitializeWeights E (su\<lparr>parameters := clear (parameters su)\<rparr>)
              else su))) = (rl, s3)"
  shows "CheckNetwork E f d m t s =
      (case rl of Inl e \<Rightarrow> (Inl e, s3)
       | Inr _ \<Rightarrow> (Inr (), if m then SetNetworkMode E t s3 else s3))"
  using assms(1) unfolding CheckNetwork_def Let_def assms(2)
  by (simp only: assms(3) if_False prod.case sum.case)

lemma CheckNetwork_responses:
  "CheckNetwork E f d m t (s\<lparr>responses := r\<rparr>) =
     (fst (CheckNetwork E f d m t s), (snd (CheckNetwork E f d m t s))\<lparr>responses := r\<rparr>)"
proof (cases "net_size E (network s) = 0")
  case True
  then show ?thesis by (simp add: CheckNetwork_def)
next
  case False
  then have nonzero: "net_size E (network (s\<lparr>responses := r\<rparr>)) \<noteq> 0"
    by simp
  obtain ru su where u: "(if \<not> inputDimensionsAreSet s then UpdateDimensions E f d s
      else (Inr (), s)) = (ru, su)"
    by (cases "if \<not> inputDimensionsAreSet s then UpdateDimensions E f d s else (Inr (), s)")
  then have u': "(if \<not> inputDimensionsAreSet (s\<lparr>responses := r\<rparr>)
      then UpdateDimensions E f d (s\<lparr>responses := r\<rparr>)
      else (Inr (), s\<lparr>responses := r\<rparr>)) = (ru, su\<lparr>responses := r\<rparr>)"
    by (auto simp: UpdateDimensions_responses split: if_splits)
  show ?thesis
  proof (cases ru)
    case (Inl e)
    with False u u' show ?thesis
      by (simp add: CheckNetwork_def)
  next
    case (Inr x)
    let ?s2 = "if is_empty (parameters su) then InitializeWeights E su
               else if n_elem (parameters su) \<noteq> net_WeightSize E (network su)
               then InitializeWeights E (su\<lparr>parameters := clear (parameters su)\<rparr>)
               else su"
    let ?s2' = "if is_empty (parameters (su\<lparr>responses := r\<rparr>))
               then InitializeWeights E (su\<lparr>responses := r\<rparr>)
               else if n_elem (parameters (su\<lparr>responses := r\<rparr>)) \<noteq>
                       net_WeightSize E (network (su\<lparr>responses := r\<rparr>))
               then InitializeWeights E (su\<lparr>responses := r,
                      parameters := clear (parameters (su\<lparr>responses := r\<rparr>))\<rparr>)
               else su\<lparr>responses := r\<rparr>"
    have s2: "?s2' = ?s2\<lparr>responses := r\<rparr>"
    proof -
      have "InitializeWeights E (su\<lparr>responses := r, parameters := clear (parameters su)\<rparr>) =
          (InitializeWeights E (su\<lparr>parameters := clear (parameters su)\<rparr>))\<lparr>responses := r\<rparr>"
        by (simp add: InitializeWeights_def SetNetworkMode_def Let_def split: prod.splits)
      then show ?thesis
        by (simp add: InitializeWeights_responses)
    qed
    obtain rl s3 where l: "(if \<not> layerMemoryIsSet ?s2 then SetLayerMemory E ?s2
        else (Inr (), ?s2)) = (rl, s3)"
      by (cases "if \<not> layerMemoryIsSet ?s2 then SetLayerMemory E ?s2 else (Inr (), ?s2)")
    then have "(if \<not> layerMemoryIsSet (?s2\<lparr>responses := r\<rparr>)
        then SetLayerMemory E (?s2\<lparr>responses := r\<rparr>)
        else (Inr (), ?s2\<lparr>responses := r\<rparr>)) = (rl, s3\<lparr>responses := r\<rparr>)"
      by (auto simp: SetLayerMemory_responses split: if_splits)
    then have l': "(if \<not> layerMemoryIsSet ?s2' then SetLayerMemory E ?s2'
        else (Inr (), ?s2')) = (rl, s3\<lparr>responses := r\<rparr>)"
      by (simp only: s2)
    have a: "CheckNetwork E f d m t s =
        (case rl of Inl e \<Rightarrow> (Inl e, s3)
         | Inr _ \<Rightarrow> (Inr (), if m then SetNetworkMode E t s3 else s3))"
      using False u [unfolded Inr] l by (rule CheckNetwork_unfold)
    have b: "CheckNetwork E f d m t (s\<lparr>responses := r\<rparr>) =
        (case rl of Inl e \<Rightarrow> (Inl e, s3\<lparr>responses := r\<rparr>)
         | Inr _ \<Rightarrow> (Inr (), if m then SetNetworkMode E t (s3\<lparr>responses := r\<rparr>)
                             else s3\<lparr>responses := r\<rparr>))"
      using nonzero u' [unfolded Inr] l' by (rule CheckNetwork_unfold)
    show ?thesis
      unfolding a b by (cases rl) (simp_all add: SetNetworkMode_responses)
  qed
qed

lemma CheckNetwork_error:
  "CheckNetwork E f d m t s = (r, s') \<Longrightarrow> error s' = error s"
  unfolding CheckNetwork_def
  by (auto simp: Let_def InitializeWeights_def SetNetworkMode_def UpdateDimensions_def
      SetLayerMemory_def split: if_splits prod.splits sum.splits)

text \<open>
  The call at column 0 that \<open>EvaluateWithGradient(parameters, gradient)\<close> makes before
  its loop, in the two ways it can stop at a column range: at the range of the
  predictors, before the forward pass, and at the range of the responses, after it.
\<close>

lemma EvaluateWithGradient_full_no_column:
  assumes "n_cols (predictors s) = 0"
    and "CheckNetwork E ''FFN::EvaluateWithGradient()'' (n_rows (predictors s))
           (dflt_setMode E) (dflt_training E) s = (r, s1)"
  shows "EvaluateWithGradient_full E p g s =
      (case r of
         Inl x \<Rightarrow> (Inl x, s1)
       | Inr _ \<Rightarrow>
           (Inl (logic_error ''Mat::cols(): indices out of bounds or incorrectly used''),
            s1\<lparr>networkOutput := set_size (junk E) (net_OutputSize E (network s1)) 1
                                   (networkOutput s1)\<rparr>))"
proof -
  have l: "lastCol 0 1 = 0"
    by (simp add: lastCol_def SIZE_T_def)
  have "n_cols (predictors s1) = 0"
    using assms CheckNetwork_data [OF assms(2)] by simp
  then have c: "cols 0 0 (predictors s1) =
      Inl (logic_error ''Mat::cols(): indices out of bounds or incorrectly used'')"
    by (simp add: cols_def)
  show ?thesis
    unfolding EvaluateWithGradient_full_def EvaluateWithGradient_batch_def assms(2) l Let_def
    by (cases r) (simp_all add: c)
qed

lemma EvaluateWithGradient_full_no_response:
  assumes "0 < n_cols (predictors s)" and "n_cols (responses s) = 0"
    and "CheckNetwork E ''FFN::EvaluateWithGradient()'' (n_rows (predictors s))
           (dflt_setMode E) (dflt_training E) s = (Inr (), s1)"
    and "cols 0 0 (predictors s) = Inr pc"
  shows "EvaluateWithGradient_full E p g s =
      (Inl (logic_error ''Mat::cols(): indices out of bounds or incorrectly used''),
       s1\<lparr>networkOutput :=
              fst (net_Forward E pc
                     (set_size (junk E) (net_OutputSize E (network s1)) 1 (networkOutput s1))
                     (network s1)),
           network :=
              snd (net_Forward E pc
                     (set_size (junk E) (net_OutputSize E (network s1)) 1 (networkOutput s1))
                     (network s1))\<rparr>)"
proof -
  have l: "lastCol 0 1 = 0"
    by (simp add: lastCol_def SIZE_T_def)
  have d: "predictors s1 = predictors s" "responses s1 = responses s"
    using CheckNetwork_data [OF assms(3)] by simp_all
  have cp: "cols 0 0 (predictors s1) = Inr pc"
    using assms(4) d by simp
  have cr: "cols 0 0 (responses s1) =
      Inl (logic_error ''Mat::cols(): indices out of bounds or incorrectly used'')"
    using assms(2) d by (simp add: cols_def)
  show ?thesis
    unfolding EvaluateWithGradient_full_def EvaluateWithGradient_batch_def assms(3) l Let_def
    by (simp add: cp cr split: prod.splits)
qed

text \<open>
  C10, as amended. With no stored example the full-dataset \<open>Evaluate\<close> returns 0 and
  leaves the object untouched, while the full-dataset \<open>EvaluateWithGradient\<close> never
  returns a value: it runs the single-example evaluation at column 0, which asks for
  the column range \<open>[0, 0]\<close> of the predictors, and that range does not exist. When
  the gatekeeper passes, the exception is the one of that column access, raised by the
  range check of the library, and only the size of \<open>networkOutput\<close> has changed. The
  call stops there: the responses are not read (with any other responses the outcome
  is the same) and \<open>error\<close>, which the output layer would compute from them, is as
  before. The range \<open>[0, 0]\<close> of the responses is asked for second, after the forward
  pass over the predictors' column: when the predictors have a column 0 and the
  responses have none, the gatekeeper passes and the forward pass has run before the
  same exception is raised for the responses.
\<close>

theorem EvaluateWithGradient_full_empty_data:
  "(n_cols (predictors s) = 0 \<longrightarrow>
      Evaluate_full E p s = (Inr 0, s)
    \<and> lastCol 0 1 = 0
    \<and> cols 0 0 (predictors s) =
        Inl (logic_error ''Mat::cols(): indices out of bounds or incorrectly used'')
    \<and> (\<forall>x. fst (EvaluateWithGradient_full E p g s) \<noteq> Inr x)
    \<and> (\<forall>s1. CheckNetwork E ''FFN::EvaluateWithGradient()'' (n_rows (predictors s))
               (dflt_setMode E) (dflt_training E) s = (Inr (), s1) \<longrightarrow>
            EvaluateWithGradient_full E p g s =
              (Inl (logic_error ''Mat::cols(): indices out of bounds or incorrectly used''),
               s1\<lparr>networkOutput := set_size (junk E) (net_OutputSize E (network s1)) 1
                                      (networkOutput s1)\<rparr>))
    \<and> (\<forall>r. EvaluateWithGradient_full E p g (s\<lparr>responses := r\<rparr>) =
            (fst (EvaluateWithGradient_full E p g s),
             (snd (EvaluateWithGradient_full E p g s))\<lparr>responses := r\<rparr>))
    \<and> error (snd (EvaluateWithGradient_full E p g s)) = error s)
   \<and> (0 < n_cols (predictors s) \<and> n_cols (responses s) = 0 \<longrightarrow>
      cols 0 0 (responses s) =
        Inl (logic_error ''Mat::cols(): indices out of bounds or incorrectly used'')
    \<and> (\<exists>pc. cols 0 0 (predictors s) = Inr pc
         \<and> (\<forall>s1. CheckNetwork E ''FFN::EvaluateWithGradient()'' (n_rows (predictors s))
                    (dflt_setMode E) (dflt_training E) s = (Inr (), s1) \<longrightarrow>
                 EvaluateWithGradient_full E p g s =
                   (Inl (logic_error ''Mat::cols(): indices out of bounds or incorrectly used''),
                    s1\<lparr>networkOutput :=
                          fst (net_Forward E pc
                                 (set_size (junk E) (net_OutputSize E (network s1)) 1
                                    (networkOutput s1))
                                 (network s1)),
                        network :=
                          snd (net_Forward E pc
                                 (set_size (junk E) (net_OutputSize E (network s1)) 1
                                    (networkOutput s1))
                                 (network s1))\<rparr>))))"
proof -
  let ?le = "logic_error ''Mat::cols(): indices out of bounds or incorrectly used''"
  let ?cn = "\<lambda>s. CheckNetwork E ''FFN::EvaluateWithGradient()'' (n_rows (predictors s))
                   (dflt_setMode E) (dflt_training E) s"
  have first: "Evaluate_full E p s = (Inr 0, s)
    \<and> lastCol 0 1 = 0
    \<and> cols 0 0 (predictors s) = Inl ?le
    \<and> (\<forall>x. fst (EvaluateWithGradient_full E p g s) \<noteq> Inr x)
    \<and> (\<forall>s1. ?cn s = (Inr (), s1) \<longrightarrow>
            EvaluateWithGradient_full E p g s =
              (Inl ?le,
               s1\<lparr>networkOutput := set_size (junk E) (net_OutputSize E (network s1)) 1
                                      (networkOutput s1)\<rparr>))
    \<and> (\<forall>r. EvaluateWithGradient_full E p g (s\<lparr>responses := r\<rparr>) =
            (fst (EvaluateWithGradient_full E p g s),
             (snd (EvaluateWithGradient_full E p g s))\<lparr>responses := r\<rparr>))
    \<and> error (snd (EvaluateWithGradient_full E p g s)) = error s"
    if z: "n_cols (predictors s) = 0"
  proof -
    have l: "lastCol 0 1 = 0"
      by (simp add: lastCol_def SIZE_T_def)
    have c: "cols 0 0 (predictors s) = Inl ?le"
      using z by (simp add: cols_def)
    have e: "Evaluate_full E p s = (Inr 0, s)"
      using z by (simp add: Evaluate_full_def Evaluate_loop.simps [of E p 0 0 s])
    obtain r s1 where cn: "?cn s = (r, s1)"
      by (cases "?cn s")
    note full = EvaluateWithGradient_full_no_column [OF z cn]
    have f: "\<forall>x. fst (EvaluateWithGradient_full E p g s) \<noteq> Inr x"
      unfolding full by (cases r) simp_all
    have g: "\<forall>s1. ?cn s = (Inr (), s1) \<longrightarrow>
            EvaluateWithGradient_full E p g s =
              (Inl ?le,
               s1\<lparr>networkOutput := set_size (junk E) (net_OutputSize E (network s1)) 1
                                      (networkOutput s1)\<rparr>)"
      unfolding full cn by (cases r) simp_all
    have h: "EvaluateWithGradient_full E p g (s\<lparr>responses := r'\<rparr>) =
            (fst (EvaluateWithGradient_full E p g s),
             (snd (EvaluateWithGradient_full E p g s))\<lparr>responses := r'\<rparr>)" for r'
    proof -
      have z': "n_cols (predictors (s\<lparr>responses := r'\<rparr>)) = 0"
        using z by simp
      have cn': "?cn (s\<lparr>responses := r'\<rparr>) = (r, s1\<lparr>responses := r'\<rparr>)"
        using cn by (simp add: CheckNetwork_responses)
      show ?thesis
        unfolding EvaluateWithGradient_full_no_column [OF z' cn'] full
        by (cases r) simp_all
    qed
    have k: "error (snd (EvaluateWithGradient_full E p g s)) = error s"
      unfolding full using CheckNetwork_error [OF cn] by (cases r) simp_all
    from l c e f g h k show ?thesis by blast
  qed
  have second: "cols 0 0 (responses s) = Inl ?le
    \<and> (\<exists>pc. cols 0 0 (predictors s) = Inr pc
         \<and> (\<forall>s1. ?cn s = (Inr (), s1) \<longrightarrow>
                 EvaluateWithGradient_full E p g s =
                   (Inl ?le,
                    s1\<lparr>networkOutput :=
                          fst (net_Forward E pc
                                 (set_size (junk E) (net_OutputSize E (network s1)) 1
                                    (networkOutput s1))
                                 (network s1)),
                        network :=
                          snd (net_Forward E pc
                                 (set_size (junk E) (net_OutputSize E (network s1)) 1
                                    (networkOutput s1))
                                 (network s1))\<rparr>)))"
    if n: "0 < n_cols (predictors s)" and m: "n_cols (responses s) = 0"
  proof -
    have cr: "cols 0 0 (responses s) = Inl ?le"
      using m by (simp add: cols_def)
    obtain pc where cp: "cols 0 0 (predictors s) = Inr pc"
      using n by (simp add: cols_def)
    from cr cp EvaluateWithGradient_full_no_response [OF n m _ cp, of E _ p g]
    show ?thesis by blast
  qed
  from first second show ?thesis by blast
qed

theorem EvaluateWithGradient_full_empty_data_witness:
  "Evaluate_full toy empty_mat (toy_core 1 [2]) = (Inr 0, toy_core 1 [2])
   \<and> fst (EvaluateWithGradient_full toy empty_mat empty_mat (toy_core 1 [2])) =
       Inl (logic_error ''Mat::cols(): indices out of bounds or incorrectly used'')
   \<and> EvaluateWithGradient_full toy empty_mat empty_mat
         ((toy_core 1 [2])\<lparr>responses := mat_of 1 1 [5]\<rparr>) =
       (fst (EvaluateWithGradient_full toy empty_mat empty_mat (toy_core 1 [2])),
        (snd (EvaluateWithGradient_full toy empty_mat empty_mat (toy_core 1 [2])))
          \<lparr>responses := mat_of 1 1 [5]\<rparr>)
   \<and> error (snd (EvaluateWithGradient_full toy empty_mat empty_mat (toy_core 1 [2]))) = empty_mat
   \<and> EvaluateWithGradient_full toy empty_mat empty_mat
         ((toy_core 1 [2])\<lparr>predictors := mat_of 2 1 [3, 4]\<rparr>) =
       (Inl (logic_error ''Mat::cols(): indices out of bounds or incorrectly used''),
        (toy_core 1 [2])\<lparr>predictors := mat_of 2 1 [3, 4],
           network := \<lparr>layers = 1, units = 1, in_dims = [2], mode = False, weights = [1, 1]\<rparr>,
           parameters := mat_of 2 1 [1, 1],
           networkOutput := mat_of 1 1 [7],
           layerMemoryIsSet := True, inputDimensionsAreSet := True\<rparr>)"
proof -
  let ?s = "toy_core 1 [2]"
  let ?t = "(toy_core 1 [2])\<lparr>predictors := mat_of 2 1 [3, 4]\<rparr>"
  have n: "n_cols (predictors ?s) = 0"
    by (simp add: toy_core_def empty_mat_def)
  have c: "fst (CheckNetwork toy ''FFN::EvaluateWithGradient()''
              (n_rows (predictors ?s)) (dflt_setMode toy) (dflt_training toy) ?s) = Inr ()"
    by (simp add: toy_simps)
  then obtain s1 where c1: "CheckNetwork toy ''FFN::EvaluateWithGradient()''
      (n_rows (predictors ?s)) (dflt_setMode toy) (dflt_training toy) ?s = (Inr (), s1)"
    by (metis prod.collapse)
  have e: "error ?s = empty_mat"
    by (simp add: toy_core_def)
  have m: "0 < n_cols (predictors ?t) \<and> n_cols (responses ?t) = 0"
    by (simp add: toy_core_def empty_mat_def)
  have d: "CheckNetwork toy ''FFN::EvaluateWithGradient()''
      (n_rows (predictors ?t)) (dflt_setMode toy) (dflt_training toy) ?t =
      (Inr (), ?t\<lparr>network := \<lparr>layers = 1, units = 1, in_dims = [2], mode = False,
                                weights = [1, 1]\<rparr>,
           parameters := mat_of 2 1 [1, 1],
           layerMemoryIsSet := True, inputDimensionsAreSet := True\<rparr>)"
    by (simp add: toy_simps replicate_numeral)
  have p: "cols 0 0 (predictors ?t) = Inr (mat_of 2 1 [3, 4])"
    by (simp add: toy_simps)
  from EvaluateWithGradient_full_empty_data [of ?s toy empty_mat empty_mat] n c1
  have a1: "Evaluate_full toy empty_mat ?s = (Inr 0, ?s)"
    and a2: "EvaluateWithGradient_full toy empty_mat empty_mat ?s =
       (Inl (logic_error ''Mat::cols(): indices out of bounds or incorrectly used''),
        s1\<lparr>networkOutput := set_size (junk toy) (net_OutputSize toy (network s1)) 1
                               (networkOutput s1)\<rparr>)"
    and a3: "EvaluateWithGradient_full toy empty_mat empty_mat
               (?s\<lparr>responses := mat_of 1 1 [5]\<rparr>) =
       (fst (EvaluateWithGradient_full toy empty_mat empty_mat ?s),
        (snd (EvaluateWithGradient_full toy empty_mat empty_mat ?s))
          \<lparr>responses := mat_of 1 1 [5]\<rparr>)"
    and a4: "error (snd (EvaluateWithGradient_full toy empty_mat empty_mat ?s)) = error ?s"
    by blast+
  have a5: "fst (EvaluateWithGradient_full toy empty_mat empty_mat ?s) =
       Inl (logic_error ''Mat::cols(): indices out of bounds or incorrectly used'')"
    unfolding a2 by simp
  have first: "Evaluate_full toy empty_mat ?s = (Inr 0, ?s)
   \<and> fst (EvaluateWithGradient_full toy empty_mat empty_mat ?s) =
       Inl (logic_error ''Mat::cols(): indices out of bounds or incorrectly used'')
   \<and> EvaluateWithGradient_full toy empty_mat empty_mat (?s\<lparr>responses := mat_of 1 1 [5]\<rparr>) =
       (fst (EvaluateWithGradient_full toy empty_mat empty_mat ?s),
        (snd (EvaluateWithGradient_full toy empty_mat empty_mat ?s))
          \<lparr>responses := mat_of 1 1 [5]\<rparr>)
   \<and> error (snd (EvaluateWithGradient_full toy empty_mat empty_mat ?s)) = empty_mat"
    using a1 a3 a4 a5 e by (simp only: simp_thms)
  from EvaluateWithGradient_full_empty_data [of ?t toy empty_mat empty_mat] m d p
  have second: "EvaluateWithGradient_full toy empty_mat empty_mat ?t =
       (Inl (logic_error ''Mat::cols(): indices out of bounds or incorrectly used''),
        ?t\<lparr>network := \<lparr>layers = 1, units = 1, in_dims = [2], mode = False, weights = [1, 1]\<rparr>,
           parameters := mat_of 2 1 [1, 1],
           networkOutput := mat_of 1 1 [7],
           layerMemoryIsSet := True, inputDimensionsAreSet := True\<rparr>)"
    by (simp add: toy_simps replicate_numeral)
  from first second show ?thesis by simp
qed

text \<open>
  C10 as stated fails in its last part, that with zero examples the call accesses the
  range \<open>[0, 0]\<close> of the predictors and of the responses: with no predictors, responses
  that have a column 0 and responses that have none give the same exception and the
  same object, with \<open>networkOutput\<close> sized and never written by a forward pass and
  \<open>error\<close> still empty.
\<close>

theorem EvaluateWithGradient_full_responses_counterexample:
  "n_cols (predictors ((toy_core 1 [2])\<lparr>responses := mat_of 1 1 [5]\<rparr>)) = 0
   \<and> cols 0 0 (responses ((toy_core 1 [2])\<lparr>responses := mat_of 1 1 [5]\<rparr>)) = Inr (mat_of 1 1 [5])
   \<and> cols 0 0 (responses (toy_core 1 [2])) =
       Inl (logic_error ''Mat::cols(): indices out of bounds or incorrectly used'')
   \<and> EvaluateWithGradient_full toy empty_mat empty_mat
         ((toy_core 1 [2])\<lparr>responses := mat_of 1 1 [5]\<rparr>) =
       (Inl (logic_error ''Mat::cols(): indices out of bounds or incorrectly used''),
        (toy_core 1 [2])\<lparr>responses := mat_of 1 1 [5],
           network := \<lparr>layers = 1, units = 1, in_dims = [2], mode = False, weights = [1, 1]\<rparr>,
           parameters := mat_of 2 1 [1, 1],
           networkOutput := mat_of 1 1 [0],
           layerMemoryIsSet := True, inputDimensionsAreSet := True\<rparr>)
   \<and> EvaluateWithGradient_full toy empty_mat empty_mat (toy_core 1 [2]) =
       (Inl (logic_error ''Mat::cols(): indices out of bounds or incorrectly used''),
        (toy_core 1 [2])\<lparr>
           network := \<lparr>layers = 1, units = 1, in_dims = [2], mode = False, weights = [1, 1]\<rparr>,
           parameters := mat_of 2 1 [1, 1],
           networkOutput := mat_of 1 1 [0],
           layerMemoryIsSet := True, inputDimensionsAreSet := True\<rparr>)"
  by (simp add: toy_simps replicate_numeral)

subsection \<open>Backward after Forward\<close>

text \<open>
  C2. After a \<open>Forward\<close> over the whole graph that returned \<open>results\<close>, the member
  \<open>networkOutput\<close> holds that output, and \<open>Backward\<close> returns the loss of the output
  layer on it plus the loss of the graph; the gradient it returns has the shape of
  the parameter buffer, provided the graph's \<open>Gradient\<close> writes into the matrix it is
  given without reshaping it; and the parameter buffer is the same afterwards.
\<close>

theorem Backward_after_Forward:
  assumes fwd: "Forward E inputs results0 s0 = (Inr results, s)"
    and bwd: "Backward E inputs targets gradients0 s = (res, gradients, s')"
    and shape: "\<forall>i e g n. n_rows (fst (net_Gradient E i e g n)) = n_rows g
                          \<and> n_cols (fst (net_Gradient E i e g n)) = n_cols g"
  shows "mem results = mem (networkOutput s)
    \<and> n_rows results = n_rows (networkOutput s) \<and> n_cols results = n_cols (networkOutput s)
    \<and> res = out_Forward E (outputLayer s) (networkOutput s) targets + net_Loss E (network s)
    \<and> n_rows gradients = n_rows (parameters s) \<and> n_cols gradients = n_cols (parameters s)
    \<and> parameters s' = parameters s"
proof -
  from fwd have r: "mem results = mem (networkOutput s)
      \<and> n_rows results = n_rows (networkOutput s) \<and> n_cols results = n_cols (networkOutput s)"
    by (auto simp: Forward_def ForwardRange_def mat_assign_def Let_def
        split: prod.splits sum.splits if_splits)
  from bwd have l: "res = out_Forward E (outputLayer s) (networkOutput s) targets
      + net_Loss E (network s)"
    by (auto simp: Backward_def Let_def split: prod.splits)
  from bwd have p: "parameters s' = parameters s"
    by (auto simp: Backward_def Let_def split: prod.splits)
  from bwd obtain e n where "gradients = fst (net_Gradient E inputs e
      (set_size (junk E) (n_rows (parameters s)) (n_cols (parameters s)) gradients0) n)"
    by (auto simp: Backward_def Let_def split: prod.splits) (metis fst_conv)
  with shape have g: "n_rows gradients = n_rows (parameters s)
      \<and> n_cols gradients = n_cols (parameters s)"
    by (simp add: set_size_def)
  from r l p g show ?thesis by simp
qed

theorem Backward_after_Forward_witness:
  "fst (Forward toy (mat_of 2 1 [1, 2]) empty_mat (toy_core 1 [])) = Inr (mat_of 1 1 [3])
   \<and> fst (Backward toy (mat_of 2 1 [1, 2]) (mat_of 1 1 [1]) empty_mat
           (snd (Forward toy (mat_of 2 1 [1, 2]) empty_mat (toy_core 1 [])))) = 2
   \<and> n_rows (fst (snd (Backward toy (mat_of 2 1 [1, 2]) (mat_of 1 1 [1]) empty_mat
           (snd (Forward toy (mat_of 2 1 [1, 2]) empty_mat (toy_core 1 [])))))) = 2
   \<and> n_cols (fst (snd (Backward toy (mat_of 2 1 [1, 2]) (mat_of 1 1 [1]) empty_mat
           (snd (Forward toy (mat_of 2 1 [1, 2]) empty_mat (toy_core 1 [])))))) = 1"
proof -
  have fwd1: "fst (Forward toy (mat_of 2 1 [1, 2]) empty_mat (toy_core 1 [])) =
      Inr (mat_of 1 1 [3])"
    by (simp add: toy_simps replicate_numeral)
  then have fwd: "Forward toy (mat_of 2 1 [1, 2]) empty_mat (toy_core 1 []) =
      (Inr (mat_of 1 1 [3]), snd (Forward toy (mat_of 2 1 [1, 2]) empty_mat (toy_core 1 [])))"
    by (metis prod.collapse)
  have bwd: "Backward toy (mat_of 2 1 [1, 2]) (mat_of 1 1 [1]) empty_mat
      (snd (Forward toy (mat_of 2 1 [1, 2]) empty_mat (toy_core 1 []))) =
      (fst (Backward toy (mat_of 2 1 [1, 2]) (mat_of 1 1 [1]) empty_mat
         (snd (Forward toy (mat_of 2 1 [1, 2]) empty_mat (toy_core 1 [])))),
       fst (snd (Backward toy (mat_of 2 1 [1, 2]) (mat_of 1 1 [1]) empty_mat
         (snd (Forward toy (mat_of 2 1 [1, 2]) empty_mat (toy_core 1 []))))),
       snd (snd (Backward toy (mat_of 2 1 [1, 2]) (mat_of 1 1 [1]) empty_mat
         (snd (Forward toy (mat_of 2 1 [1, 2]) empty_mat (toy_core 1 []))))))"
    by simp
  have shape: "\<forall>i e g n. n_rows (fst (net_Gradient toy i e g n)) = n_rows g
      \<and> n_cols (fst (net_Gradient toy i e g n)) = n_cols g"
    by (simp add: toy_def)
  have par: "parameters (snd (Forward toy (mat_of 2 1 [1, 2]) empty_mat (toy_core 1 []))) =
      mat_of 2 1 [1, 1]"
    by (simp add: toy_simps replicate_numeral)
  have out: "networkOutput (snd (Forward toy (mat_of 2 1 [1, 2]) empty_mat (toy_core 1 []))) =
      mat_of 1 1 [3]"
    by (simp add: toy_simps replicate_numeral)
  have ops: "out_Forward toy = (\<lambda>_ pred target. sum_list (map2 (-) (mem pred) (mem target)))"
    "net_Loss toy = (\<lambda>n. 0)"
    by (simp_all add: toy_def)
  note r = Backward_after_Forward [OF fwd bwd shape, unfolded par out ops]
  from r fwd1 show ?thesis by simp
qed

subsection \<open>The full-dataset variants as sums over the examples\<close>

lemma Evaluate_loop_each:
  "Evaluate_loop E p i res s =
     (case Evaluate_each E p [i..<n_cols (predictors s)] s of
        (Inl e, s') \<Rightarrow> (Inl e, s')
      | (Inr xs, s') \<Rightarrow> (Inr (foldl (+) res xs), s'))"
proof (induction E p i res s rule: Evaluate_loop.induct)
  case (1 E p i res s)
  show ?case
  proof (cases "i < n_cols (predictors s)")
    case False
    then show ?thesis
      by (simp add: Evaluate_loop.simps [of E p i res s])
  next
    case True
    obtain r s1 where eb: "Evaluate_batch E p i 1 s = (r, s1)"
      by (cases "Evaluate_batch E p i 1 s")
    from Evaluate_batch_data [OF eb] have pr: "predictors s1 = predictors s" by simp
    have up: "[i..<n_cols (predictors s)] = i # [Suc i..<n_cols (predictors s)]"
      using True by (rule upt_conv_Cons)
    show ?thesis
    proof (cases r)
      case (Inl e)
      with True eb up show ?thesis
        by (simp add: Evaluate_loop.simps [of E p i res s])
    next
      case (Inr x)
      from "1.IH" [OF True eb [symmetric] Inr]
      have "Evaluate_loop E p (Suc i) (res + x) s1 =
          (case Evaluate_each E p [Suc i..<n_cols (predictors s)] s1 of
             (Inl e, s') \<Rightarrow> (Inl e, s')
           | (Inr xs, s') \<Rightarrow> (Inr (foldl (+) (res + x) xs), s'))"
        by (simp add: pr)
      with True eb up Inr show ?thesis
        by (simp add: Evaluate_loop.simps [of E p i res s] split: prod.splits sum.splits)
    qed
  qed
qed


lemma EvaluateWithGradient_batch_shape:
  assumes shape: "\<forall>i e g n. n_rows (fst (net_Gradient E i e g n)) = n_rows g
                          \<and> n_cols (fst (net_Gradient E i e g n)) = n_cols g"
    and ok: "EvaluateWithGradient_batch E p b buf k s = (Inr (x, g), s1)"
  shows "n_rows g = n_rows p \<and> n_cols g = n_cols p"
proof -
  from ok obtain inp e n where "g = fst (net_Gradient E inp e
      (set_size (junk E) (n_rows p) (n_cols p) buf) n)"
    by (auto simp: EvaluateWithGradient_batch_def Let_def split: prod.splits sum.splits)
       (metis fst_conv)
  with shape show ?thesis
    by (simp add: set_size_def)
qed

lemma mat_add_assign_same_shape:
  "n_rows a = n_rows b \<Longrightarrow> n_cols a = n_cols b \<Longrightarrow> mat_add_assign a b = Inr (mat_plus a b)"
  by (simp add: mat_add_assign_def mat_plus_def)

lemma mat_plus_shape [simp]:
  "n_rows (mat_plus a b) = n_rows a" "n_cols (mat_plus a b) = n_cols a"
  by (simp_all add: mat_plus_def)

lemma EvaluateWithGradient_loop_each:
  "\<forall>i e g n. n_rows (fst (net_Gradient E i e g n)) = n_rows g
              \<and> n_cols (fst (net_Gradient E i e g n)) = n_cols g \<Longrightarrow>
   n_rows G = n_rows p \<Longrightarrow> n_cols G = n_cols p \<Longrightarrow>
     EvaluateWithGradient_loop E p i res G s =
       (case EvaluateWithGradient_each E p [i..<n_cols (predictors s)]
               (new_mat (junk E) (n_rows p) (n_cols p)) s of
          (Inl e, s') \<Rightarrow> (Inl e, s')
        | (Inr xgs, s') \<Rightarrow>
            (Inr (foldl (+) res (map fst xgs), foldl mat_plus G (map snd xgs)), s'))"
proof (induction E p i res G s rule: EvaluateWithGradient_loop.induct)
  case (1 E p i res G s)
  note shape = "1.prems"(1)
  note sh = "1.prems"(2,3)
  show ?case
  proof (cases "i < n_cols (predictors s)")
    case False
    then show ?thesis
      by (simp add: EvaluateWithGradient_loop.simps [of E p i res G s])
  next
    case True
    let ?tmp = "new_mat (junk E) (n_rows G) (n_cols G)"
    have tmp: "?tmp = new_mat (junk E) (n_rows p) (n_cols p)"
      by (simp add: sh)
    obtain r s1 where eb: "EvaluateWithGradient_batch E p i ?tmp 1 s = (r, s1)"
      by (cases "EvaluateWithGradient_batch E p i ?tmp 1 s")
    from EvaluateWithGradient_batch_data [OF eb] have pr: "predictors s1 = predictors s"
      by simp
    have up: "[i..<n_cols (predictors s)] = i # [Suc i..<n_cols (predictors s)]"
      using True by (rule upt_conv_Cons)
    show ?thesis
    proof (cases r)
      case (Inl e)
      with True eb up tmp show ?thesis
        by (simp add: EvaluateWithGradient_loop.simps [of E p i res G s] Let_def)
    next
      case (Inr xg)
      obtain x g where xg: "xg = (x, g)" by (cases xg)
      from EvaluateWithGradient_batch_shape [OF shape eb [unfolded Inr xg]]
      have gs: "n_rows g = n_rows p" "n_cols g = n_cols p" by simp_all
      have add: "mat_add_assign G g = Inr (mat_plus G g)"
        by (rule mat_add_assign_same_shape) (simp_all add: sh gs)
      have "EvaluateWithGradient_loop E p (Suc i) (res + x) (mat_plus G g) s1 =
          (case EvaluateWithGradient_each E p [Suc i..<n_cols (predictors s)]
                  (new_mat (junk E) (n_rows p) (n_cols p)) s1 of
             (Inl e, s') \<Rightarrow> (Inl e, s')
           | (Inr xgs, s') \<Rightarrow>
               (Inr (foldl (+) (res + x) (map fst xgs),
                     foldl mat_plus (mat_plus G g) (map snd xgs)), s'))"
        using "1.IH" [OF True refl eb [symmetric] Inr xg [symmetric] add shape] sh
        by (simp add: pr)
      with True eb up Inr xg add tmp show ?thesis
        by (simp add: EvaluateWithGradient_loop.simps [of E p i res G s] Let_def
            split: prod.splits sum.splits)
    qed
  qed
qed

text \<open>
  C6. For a stored dataset of at least one example, the full-dataset \<open>Evaluate\<close> is
  the sum, from 0 and in column order, of the single-example evaluations, and the
  full-dataset \<open>EvaluateWithGradient\<close> returns the sum of the single-example objectives
  together with the element-wise sum of the single-example gradients. The hypothesis
  on the graph is that its \<open>Gradient\<close> writes into the matrix it is given without
  reshaping it, so that all the gradients have one shape.
\<close>

theorem full_dataset_sums_single_examples:
  assumes nonempty: "1 \<le> n_cols (predictors s)"
    and shape: "\<forall>i e g n. n_rows (fst (net_Gradient E i e g n)) = n_rows g
                          \<and> n_cols (fst (net_Gradient E i e g n)) = n_cols g"
  shows "Evaluate_full E p s =
           total_objective (Evaluate_each E p [0..<n_cols (predictors s)] s)
    \<and> EvaluateWithGradient_full E p gradient s =
           total_objective_gradient
             (EvaluateWithGradient_each E p [0..<n_cols (predictors s)] gradient s)"
proof
  show "Evaluate_full E p s =
      total_objective (Evaluate_each E p [0..<n_cols (predictors s)] s)"
    by (simp add: Evaluate_full_def Evaluate_loop_each total_objective_def)
next
  have up: "[0..<n_cols (predictors s)] = 0 # [1..<n_cols (predictors s)]"
    using nonempty by (simp add: upt_conv_Cons)
  obtain r s1 where eb: "EvaluateWithGradient_batch E p 0 gradient 1 s = (r, s1)"
    by (cases "EvaluateWithGradient_batch E p 0 gradient 1 s")
  from EvaluateWithGradient_batch_data [OF eb] have pr: "predictors s1 = predictors s"
    by simp
  show "EvaluateWithGradient_full E p gradient s =
      total_objective_gradient
        (EvaluateWithGradient_each E p [0..<n_cols (predictors s)] gradient s)"
  proof (cases r)
    case (Inl e)
    with eb up show ?thesis
      by (simp add: EvaluateWithGradient_full_def total_objective_gradient_def)
  next
    case (Inr xg)
    obtain x g where xg: "xg = (x, g)" by (cases xg)
    from EvaluateWithGradient_batch_shape [OF shape eb [unfolded Inr xg]]
    have gs: "n_rows g = n_rows p" "n_cols g = n_cols p" by simp_all
    from EvaluateWithGradient_loop_each [OF shape gs, of 1 "0 + x" s1]
    have "EvaluateWithGradient_loop E p 1 (0 + x) g s1 =
        (case EvaluateWithGradient_each E p [1..<n_cols (predictors s)]
                (new_mat (junk E) (n_rows p) (n_cols p)) s1 of
           (Inl e, s') \<Rightarrow> (Inl e, s')
         | (Inr xgs, s') \<Rightarrow>
             (Inr (foldl (+) (0 + x) (map fst xgs), foldl mat_plus g (map snd xgs)), s'))"
      by (simp add: pr)
    with eb up Inr xg show ?thesis
      by (simp add: EvaluateWithGradient_full_def total_objective_gradient_def
          split: prod.splits sum.splits)
  qed
qed


theorem full_dataset_sums_single_examples_witness:
  "fst (Evaluate_full toy (mat_of 2 1 [1, 1]) toy_data) = Inr 7
   \<and> fst (EvaluateWithGradient_full toy (mat_of 2 1 [1, 1]) empty_mat toy_data) =
       Inr (7, mat_of 2 1 [10, 10])"
proof -
  have n: "1 \<le> n_cols (predictors toy_data)"
    by (simp add: toy_data_def)
  have shape: "\<forall>i e g n. n_rows (fst (net_Gradient toy i e g n)) = n_rows g
      \<and> n_cols (fst (net_Gradient toy i e g n)) = n_cols g"
    by (simp add: toy_def)
  have up: "[0..<n_cols (predictors toy_data)] = [0, 1]"
    by (simp add: toy_data_def upt_rec)
  have e: "fst (total_objective (Evaluate_each toy (mat_of 2 1 [1, 1]) [0, 1] toy_data)) = Inr 7"
    by (simp add: toy_data_def total_objective_def toy_simps replicate_numeral upt_rec)
  have g: "fst (total_objective_gradient
      (EvaluateWithGradient_each toy (mat_of 2 1 [1, 1]) [0, 1] empty_mat toy_data)) =
      Inr (7, mat_of 2 1 [10, 10])"
    by (simp add: toy_data_def total_objective_gradient_def toy_simps replicate_numeral
        upt_rec mat_plus_def)
  from full_dataset_sums_single_examples [OF n shape, of "mat_of 2 1 [1, 1]" empty_mat]
  show ?thesis
    unfolding up using e g by simp
qed

subsection \<open>Running the gatekeeper twice\<close>

lemma CheckNetwork_okE:
  assumes "CheckNetwork E f d m t s = (Inr (), s1)"
  obtains su s3 where
    "net_size E (network s) \<noteq> 0"
    "(if \<not> inputDimensionsAreSet s then UpdateDimensions E f d s else (Inr (), s)) = (Inr (), su)"
    "(if \<not> layerMemoryIsSet
             (if is_empty (parameters su) then InitializeWeights E su
              else if n_elem (parameters su) \<noteq> net_WeightSize E (network su)
              then InitializeWeights E (su\<lparr>parameters := clear (parameters su)\<rparr>)
              else su)
      then SetLayerMemory E
             (if is_empty (parameters su) then InitializeWeights E su
              else if n_elem (parameters su) \<noteq> net_WeightSize E (network su)
              then InitializeWeights E (su\<lparr>parameters := clear (parameters su)\<rparr>)
              else su)
      else (Inr (),
             (if is_empty (parameters su) then InitializeWeights E su
              else if n_elem (parameters su) \<noteq> net_WeightSize E (network su)
              then InitializeWeights E (su\<lparr>parameters := clear (parameters su)\<rparr>)
              else su))) = (Inr (), s3)"
    "s1 = (if m then SetNetworkMode E t s3 else s3)"
proof (cases "net_size E (network s) = 0")
  case True
  with assms show ?thesis by (simp add: CheckNetwork_def)
next
  case False
  obtain ru su where u: "(if \<not> inputDimensionsAreSet s then UpdateDimensions E f d s
      else (Inr (), s)) = (ru, su)"
    by (cases "if \<not> inputDimensionsAreSet s then UpdateDimensions E f d s else (Inr (), s)")
  let ?s2 = "if is_empty (parameters su) then InitializeWeights E su
              else if n_elem (parameters su) \<noteq> net_WeightSize E (network su)
              then InitializeWeights E (su\<lparr>parameters := clear (parameters su)\<rparr>)
              else su"
  obtain rl s3 where l: "(if \<not> layerMemoryIsSet ?s2 then SetLayerMemory E ?s2
      else (Inr (), ?s2)) = (rl, s3)"
    by (cases "if \<not> layerMemoryIsSet ?s2 then SetLayerMemory E ?s2 else (Inr (), ?s2)")
  from assms False have c: "(case (ru, su) of
      (Inl e, s1) \<Rightarrow> (Inl e, s1)
    | (Inr _, s1) \<Rightarrow>
        (case (rl, s3) of
           (Inl e, s3) \<Rightarrow> (Inl e, s3)
         | (Inr _, s3) \<Rightarrow> (Inr (), if m then SetNetworkMode E t s3 else s3))) = (Inr (), s1)"
    unfolding CheckNetwork_def u Let_def
    by (cases ru) (simp_all only: l if_False prod.case sum.case prod.inject sum.distinct simp_thms)
  then have "ru = Inr ()" "rl = Inr ()" "s1 = (if m then SetNetworkMode E t s3 else s3)"
    by (auto split: sum.splits)
  with False u l that show ?thesis by blast
qed

lemma UpdateDimensions_ready:
  assumes "keeps_structure E" "UpdateDimensions E f d s = (Inr (), s1)"
  shows "inputDimensionsAreSet s1 \<and> layerMemoryIsSet s1 = layerMemoryIsSet s
    \<and> net_size E (network s1) = net_size E (network s)"
  using assms
  by (auto simp: UpdateDimensions_def keeps_structure_def Let_def split: if_splits)

lemma InitializeWeights_ready:
  assumes "keeps_structure E"
  shows "inputDimensionsAreSet (InitializeWeights E s) = inputDimensionsAreSet s
    \<and> layerMemoryIsSet (InitializeWeights E s) = layerMemoryIsSet s
    \<and> net_size E (network (InitializeWeights E s)) = net_size E (network s)
    \<and> n_elem (parameters (InitializeWeights E s)) =
        net_WeightSize E (network (InitializeWeights E s))"
proof -
  obtain n p where i: "init_Initialize E (initializeRule s)
      (net_Training_upd E False (network s)) (parameters s) = (n, p)"
    by (cases "init_Initialize E (initializeRule s)
      (net_Training_upd E False (network s)) (parameters s)")
  from assms have "net_size E (fst (init_Initialize E (initializeRule s)
        (net_Training_upd E False (network s)) (parameters s))) = net_size E (network s)"
    and "n_elem (snd (init_Initialize E (initializeRule s)
        (net_Training_upd E False (network s)) (parameters s))) =
      net_WeightSize E (fst (init_Initialize E (initializeRule s)
        (net_Training_upd E False (network s)) (parameters s)))"
    by (simp_all add: keeps_structure_def)
  with i show ?thesis
    by (simp add: InitializeWeights_def SetNetworkMode_def Let_def)
qed

lemma SetLayerMemory_ready:
  assumes "keeps_structure E" "SetLayerMemory E s = (Inr (), s1)"
  shows "layerMemoryIsSet s1 \<and> inputDimensionsAreSet s1 = inputDimensionsAreSet s
    \<and> net_size E (network s1) = net_size E (network s)
    \<and> n_elem (parameters s1) = net_WeightSize E (network s1)"
  using assms
  by (auto simp: SetLayerMemory_def keeps_structure_def Let_def split: if_splits)

lemma SetNetworkMode_ready:
  assumes "keeps_structure E" "ready E s"
  shows "ready E (SetNetworkMode E t s)
    \<and> SetNetworkMode E t (SetNetworkMode E t s) = SetNetworkMode E t s"
  using assms
  by (simp add: SetNetworkMode_def keeps_structure_def ready_def)

text \<open>A call that returns leaves the object ready.\<close>

lemma CheckNetwork_ready:
  assumes ks: "keeps_structure E"
    and ok: "CheckNetwork E f d m t s = (Inr (), s1)"
  shows "ready E s1 \<and> (m \<longrightarrow> SetNetworkMode E t s1 = s1)"
proof -
  from ok obtain su s3 where
    sz: "net_size E (network s) \<noteq> 0"
    and u: "(if \<not> inputDimensionsAreSet s then UpdateDimensions E f d s else (Inr (), s))
        = (Inr (), su)"
    and l: "(if \<not> layerMemoryIsSet
             (if is_empty (parameters su) then InitializeWeights E su
              else if n_elem (parameters su) \<noteq> net_WeightSize E (network su)
              then InitializeWeights E (su\<lparr>parameters := clear (parameters su)\<rparr>)
              else su)
      then SetLayerMemory E
             (if is_empty (parameters su) then InitializeWeights E su
              else if n_elem (parameters su) \<noteq> net_WeightSize E (network su)
              then InitializeWeights E (su\<lparr>parameters := clear (parameters su)\<rparr>)
              else su)
      else (Inr (),
             (if is_empty (parameters su) then InitializeWeights E su
              else if n_elem (parameters su) \<noteq> net_WeightSize E (network su)
              then InitializeWeights E (su\<lparr>parameters := clear (parameters su)\<rparr>)
              else su))) = (Inr (), s3)"
    and m: "s1 = (if m then SetNetworkMode E t s3 else s3)"
    by (rule CheckNetwork_okE)
  let ?s2 = "if is_empty (parameters su) then InitializeWeights E su
              else if n_elem (parameters su) \<noteq> net_WeightSize E (network su)
              then InitializeWeights E (su\<lparr>parameters := clear (parameters su)\<rparr>)
              else su"
  from u sz have su: "inputDimensionsAreSet su \<and> net_size E (network su) \<noteq> 0"
    by (auto split: if_splits dest: UpdateDimensions_ready [OF ks])
  have s2: "inputDimensionsAreSet ?s2 \<and> net_size E (network ?s2) \<noteq> 0
      \<and> n_elem (parameters ?s2) = net_WeightSize E (network ?s2)"
    using su InitializeWeights_ready [OF ks, of su]
      InitializeWeights_ready [OF ks, of "su\<lparr>parameters := clear (parameters su)\<rparr>"]
    by (simp add: is_empty_def)
  have s3: "ready E s3"
  proof (cases "layerMemoryIsSet ?s2")
    case True
    with l have "s3 = ?s2" by simp
    with True s2 show ?thesis by (simp add: ready_def)
  next
    case False
    with l have "SetLayerMemory E ?s2 = (Inr (), s3)" by simp
    from SetLayerMemory_ready [OF ks this] s2 show ?thesis
      by (simp add: ready_def)
  qed
  from SetNetworkMode_ready [OF ks s3, of t] m s3 show ?thesis
    by (cases m) simp_all
qed


text \<open>
  C3, as amended. When the collaborators keep the structure of the graph, a call of
  \<open>CheckNetwork\<close> that returns and leaves a parameter buffer that is not empty has
  set both flags, and a second call with the same arguments returns with the object
  unchanged. The second call is also run with collaborators \<open>E'\<close> of which only the
  layer count, the weight count and the mode setter are those of \<open>E\<close>: the outcome is
  the same, so the second call performs no dimension propagation, no initialization
  of the buffer and no binding of the weights.
\<close>

theorem CheckNetwork_idempotent:
  assumes ks: "keeps_structure E"
    and ok: "CheckNetwork E f d m t s = (Inr (), s1)"
    and nonempty: "\<not> is_empty (parameters s1)"
    and agree: "net_size E' = net_size E \<and> net_WeightSize E' = net_WeightSize E
                \<and> net_Training_upd E' = net_Training_upd E"
  shows "inputDimensionsAreSet s1 \<and> layerMemoryIsSet s1
    \<and> CheckNetwork E f d m t s1 = (Inr (), s1)
    \<and> CheckNetwork E' f d m t s1 = (Inr (), s1)"
proof -
  from CheckNetwork_ready [OF ks ok]
  have r: "ready E s1" and md: "m \<longrightarrow> SetNetworkMode E t s1 = s1"
    by simp_all
  from agree have md': "SetNetworkMode E' t s1 = SetNetworkMode E t s1"
    by (simp add: SetNetworkMode_def)
  have "CheckNetwork E f d m t s1 = (Inr (), s1)"
    using r md nonempty by (simp add: CheckNetwork_def ready_def)
  moreover have "CheckNetwork E' f d m t s1 = (Inr (), s1)"
    using r md nonempty agree md' by (simp add: CheckNetwork_def ready_def)
  ultimately show ?thesis
    using r by (simp add: ready_def)
qed

lemma keeps_structure_toy: "keeps_structure toy"
  by (simp add: keeps_structure_def toy_def n_elem_def set_size_def)

theorem CheckNetwork_idempotent_witness:
  "CheckNetwork toy ''FFN::Predict()'' 2 True False
     (snd (CheckNetwork toy ''FFN::Predict()'' 2 True False (toy_core 1 []))) =
   (Inr (), snd (CheckNetwork toy ''FFN::Predict()'' 2 True False (toy_core 1 [])))
   \<and> CheckNetwork toy_row ''FFN::Predict()'' 2 True False
     (snd (CheckNetwork toy ''FFN::Predict()'' 2 True False (toy_core 1 []))) =
   (Inr (), snd (CheckNetwork toy ''FFN::Predict()'' 2 True False (toy_core 1 [])))"
proof -
  have f: "fst (CheckNetwork toy ''FFN::Predict()'' 2 True False (toy_core 1 [])) = Inr ()"
    by (simp add: toy_simps)
  then have ok: "CheckNetwork toy ''FFN::Predict()'' 2 True False (toy_core 1 []) =
      (Inr (), snd (CheckNetwork toy ''FFN::Predict()'' 2 True False (toy_core 1 [])))"
    by (metis prod.collapse)
  have ne: "\<not> is_empty (parameters
      (snd (CheckNetwork toy ''FFN::Predict()'' 2 True False (toy_core 1 []))))"
    by (simp add: toy_simps)
  have ag: "net_size toy_row = net_size toy \<and> net_WeightSize toy_row = net_WeightSize toy
      \<and> net_Training_upd toy_row = net_Training_upd toy"
    by (simp add: toy_row_def)
  from CheckNetwork_idempotent [OF keeps_structure_toy ok ne ag]
  show ?thesis by simp
qed

text \<open>
  C3 as stated fails on a graph without weights. The first call returns with both
  flags set and an empty buffer; the second call hands the empty buffer to the
  initializer again, so its outcome depends on the initializer: with the initializer
  of \<open>toy_row\<close> the object it leaves is another one.
\<close>

theorem CheckNetwork_weightless_counterexample:
  "keeps_structure toy
   \<and> net_size toy_row = net_size toy \<and> net_WeightSize toy_row = net_WeightSize toy
   \<and> net_Training_upd toy_row = net_Training_upd toy
   \<and> fst (CheckNetwork toy ''FFN::Forward()'' 2 False False toy_weightless) = Inr ()
   \<and> inputDimensionsAreSet
        (snd (CheckNetwork toy ''FFN::Forward()'' 2 False False toy_weightless))
   \<and> layerMemoryIsSet
        (snd (CheckNetwork toy ''FFN::Forward()'' 2 False False toy_weightless))
   \<and> CheckNetwork toy_row ''FFN::Forward()'' 2 False False
        (snd (CheckNetwork toy ''FFN::Forward()'' 2 False False toy_weightless)) \<noteq>
      (Inr (), snd (CheckNetwork toy ''FFN::Forward()'' 2 False False toy_weightless))"
proof -
  have p1: "parameters (snd (CheckNetwork toy ''FFN::Forward()'' 2 False False toy_weightless))
      = mat_of 0 1 []"
    by (simp add: toy_weightless_def toy_simps)
  have p2: "parameters (snd (CheckNetwork toy_row ''FFN::Forward()'' 2 False False
      (snd (CheckNetwork toy ''FFN::Forward()'' 2 False False toy_weightless))))
      = mat_of 1 0 []"
    by (simp add: toy_weightless_def toy_row_def toy_simps)
  have ne: "CheckNetwork toy_row ''FFN::Forward()'' 2 False False
        (snd (CheckNetwork toy ''FFN::Forward()'' 2 False False toy_weightless)) \<noteq>
      (Inr (), snd (CheckNetwork toy ''FFN::Forward()'' 2 False False toy_weightless))"
  proof
    assume "CheckNetwork toy_row ''FFN::Forward()'' 2 False False
        (snd (CheckNetwork toy ''FFN::Forward()'' 2 False False toy_weightless)) =
      (Inr (), snd (CheckNetwork toy ''FFN::Forward()'' 2 False False toy_weightless))"
    then have "parameters (snd (CheckNetwork toy_row ''FFN::Forward()'' 2 False False
        (snd (CheckNetwork toy ''FFN::Forward()'' 2 False False toy_weightless)))) =
      parameters (snd (CheckNetwork toy ''FFN::Forward()'' 2 False False toy_weightless))"
      by simp
    with p1 p2 show False by (simp add: mat_of_def)
  qed
  have fl: "fst (CheckNetwork toy ''FFN::Forward()'' 2 False False toy_weightless) = Inr ()
      \<and> inputDimensionsAreSet
        (snd (CheckNetwork toy ''FFN::Forward()'' 2 False False toy_weightless))
      \<and> layerMemoryIsSet
        (snd (CheckNetwork toy ''FFN::Forward()'' 2 False False toy_weightless))"
    by (simp add: toy_weightless_def toy_simps)
  have ag: "net_size toy_row = net_size toy \<and> net_WeightSize toy_row = net_WeightSize toy
      \<and> net_Training_upd toy_row = net_Training_upd toy"
    by (simp add: toy_row_def)
  from keeps_structure_toy ag fl ne show ?thesis by blast
qed

subsection \<open>Predict and the batch size\<close>







lemma length_mat_columns [simp]: "length (mat_columns m) = n_cols m"
  by (simp add: mat_columns_def)







lemma set_size_sel [simp]:
  "n_rows (set_size x r c m) = r" "n_cols (set_size x r c m) = c"
  "strict (set_size x r c m) = strict m"
  by (simp_all add: set_size_def)









end
